theory Spec2Isabelle
  imports Main "HOL-Library.Word"
begin

unbundle bit_operations_syntax

chapter \<open>The model\<close>

section \<open>C arithmetic\<close>

text \<open>
  C's \<^verbatim>\<open>/\<close> and \<^verbatim>\<open>%\<close> on \<^verbatim>\<open>int\<close> truncate towards zero; HOL's
  \<open>div\<close> and \<open>mod\<close> round down. The two agree on non-negative operands. Division
  by zero traps in C, so every caller below tests the divisor first.

  A C \<^verbatim>\<open>int\<close> has 32 bits. The sizes and offsets type.c computes are sums and
  products of \<^verbatim>\<open>int\<close>s, with no guard against overflow; the compiled code adds and
  multiplies in 32-bit two's complement. \<open>int32\<close> maps the mathematical result to the
  value the \<^verbatim>\<open>int\<close> then holds, and is applied at each of these additions and
  multiplications. \<open>INT_MAX\<close> is the largest \<^verbatim>\<open>int\<close>. abi.c and declaration.c add
  offsets inside a type whose size type.c has already computed; these sums are taken in
  unbounded integers.
\<close>

definition c_div :: "int \<Rightarrow> int \<Rightarrow> int" where
  "c_div a b = sgn a * sgn b * (\<bar>a\<bar> div \<bar>b\<bar>)"

definition c_mod :: "int \<Rightarrow> int \<Rightarrow> int" where
  "c_mod a b = a - b * c_div a b"


definition int32 :: "int \<Rightarrow> int" where
  "int32 x = (x + 2147483648) mod 4294967296 - 2147483648"

section \<open>Type trees (parser/type.c)\<close>

datatype type_kind =
  T_SIGNED | T_UNSIGNED | T_REAL | T_POINTER | T_FUNCTION | T_ARRAY | T_STRUCT | T_UNION | T_VOID

text \<open>
  Modelled from the spec: the declaration of \<^verbatim>\<open>struct typetree\<close> and
  \<^verbatim>\<open>struct member\<close> (lacc/typetree.h) is not among the sources. The fields are the
  ones type.c reads and writes: \<^verbatim>\<open>type\<close>, \<^verbatim>\<open>size\<close>, \<^verbatim>\<open>qualifier\<close>,
  \<^verbatim>\<open>member_list\<close> (with its \<^verbatim>\<open>func_vararg\<close> flag), \<^verbatim>\<open>next\<close> and
  \<^verbatim>\<open>tag_name\<close>. A null \<^verbatim>\<open>member_list\<close> is the empty list (\<^verbatim>\<open>nmembers\<close>
  returns 0 for both), a null \<^verbatim>\<open>next\<close> or name is \<open>None\<close>. A member's type is
  never null: \<^verbatim>\<open>type_add_member\<close> dereferences it before it stores it.
\<close>

datatype typetree =
  Typetree (ttype: type_kind) (tsize: int) (qualifier: nat) (members: "member list")
    (func_vararg: bool) (tnext: "typetree option") (tag_name: "string option")
and member =
  Member (mname: "string option") (mtype: typetree) (moffset: int)

definition basic_type :: "type_kind \<Rightarrow> int \<Rightarrow> typetree" where
  "basic_type k sz = Typetree k sz 0 [] False None None"

definition basic_type__void :: typetree where "basic_type__void = basic_type T_VOID 0"

definition basic_type__char :: typetree where "basic_type__char = basic_type T_SIGNED 1"

definition basic_type__short :: typetree where "basic_type__short = basic_type T_SIGNED 2"

definition basic_type__int :: typetree where "basic_type__int = basic_type T_SIGNED 4"

definition basic_type__long :: typetree where "basic_type__long = basic_type T_SIGNED 8"

definition basic_type__unsigned_char :: typetree where
  "basic_type__unsigned_char = basic_type T_UNSIGNED 1"

definition basic_type__unsigned_short :: typetree where
  "basic_type__unsigned_short = basic_type T_UNSIGNED 2"

definition basic_type__unsigned_int :: typetree where
  "basic_type__unsigned_int = basic_type T_UNSIGNED 4"

definition basic_type__unsigned_long :: typetree where
  "basic_type__unsigned_long = basic_type T_UNSIGNED 8"

definition basic_type__float :: typetree where "basic_type__float = basic_type T_REAL 4"

definition basic_type__double :: typetree where "basic_type__double = basic_type T_REAL 8"

text \<open>
  Modelled from the spec: the classification macros of lacc/typetree.h are not among the
  sources. A tag is a struct or union node whose \<^verbatim>\<open>next\<close> points to the tagged
  object (\<^verbatim>\<open>type_tagged_copy\<close> builds exactly that, and \<^verbatim>\<open>unwrapped\<close> and
  \<^verbatim>\<open>size_of\<close> follow \<^verbatim>\<open>next\<close> of a tagged node); an object type is any type that
  is not a function type.
\<close>

definition is_struct :: "typetree \<Rightarrow> bool" where "is_struct t = (ttype t = T_STRUCT)"

definition is_union :: "typetree \<Rightarrow> bool" where "is_union t = (ttype t = T_UNION)"

definition is_function :: "typetree \<Rightarrow> bool" where "is_function t = (ttype t = T_FUNCTION)"

definition is_array :: "typetree \<Rightarrow> bool" where "is_array t = (ttype t = T_ARRAY)"

definition is_pointer :: "typetree \<Rightarrow> bool" where "is_pointer t = (ttype t = T_POINTER)"

definition is_void :: "typetree \<Rightarrow> bool" where "is_void t = (ttype t = T_VOID)"

definition is_integer :: "typetree \<Rightarrow> bool" where
  "is_integer t = (ttype t = T_SIGNED \<or> ttype t = T_UNSIGNED)"

definition is_struct_or_union :: "typetree \<Rightarrow> bool" where
  "is_struct_or_union t = (is_struct t \<or> is_union t)"

definition is_object :: "typetree \<Rightarrow> bool" where "is_object t = (\<not> is_function t)"

definition is_tagged :: "typetree \<Rightarrow> bool" where
  "is_tagged t = (is_struct_or_union t \<and> tnext t \<noteq> None)"

text \<open>
  \<^verbatim>\<open>unwrapped\<close>, \<^verbatim>\<open>size_of\<close>, \<^verbatim>\<open>nmembers\<close>, \<^verbatim>\<open>get_member\<close>. The test
  \<^verbatim>\<open>is_tagged(type)\<close> of the first two is the case of a struct or union node with a
  \<^verbatim>\<open>next\<close>, which is then followed.
\<close>

definition unwrapped :: "typetree \<Rightarrow> typetree" where
  "unwrapped t = (case tnext t of Some u \<Rightarrow> if is_struct_or_union t then u else t | None \<Rightarrow> t)"

definition size_of :: "typetree \<Rightarrow> int" where
  "size_of t = (case tnext t of Some u \<Rightarrow> if is_struct_or_union t then tsize u else tsize t
                | None \<Rightarrow> tsize t)"

definition nmembers :: "typetree \<Rightarrow> int" where
  "nmembers t = int (length (members t))"

definition get_member :: "typetree \<Rightarrow> int \<Rightarrow> member option" where
  "get_member t n = (if int (length (members t)) \<le> n then None else Some (members t ! nat n))"

text \<open>
  \<^verbatim>\<open>type_alignment\<close>. \<open>None\<close> is a failed assertion or a null dereference: a
  function type, an array without element type, a struct or union whose strongest
  member alignment is 0 (no members). The loop over the members is
  \<open>members_alignment\<close>, with the running maximum \<open>m\<close>.
\<close>

fun type_alignment :: "typetree \<Rightarrow> int option"
  and members_alignment :: "member list \<Rightarrow> int \<Rightarrow> int option"
where
  "type_alignment (Typetree k sz q ms va nx tg) =
     (if k = T_FUNCTION then None
      else if k = T_ARRAY then
        (case nx of None \<Rightarrow> None | Some e \<Rightarrow> type_alignment e)
      else if k = T_STRUCT \<or> k = T_UNION then
        (case (case nx of None \<Rightarrow> members_alignment ms 0
                        | Some (Typetree k' sz' q' ms' va' nx' tg') \<Rightarrow>
                            members_alignment ms' 0) of
           None \<Rightarrow> None
         | Some m \<Rightarrow> if m = 0 then None else Some m)
      else Some sz)"
| "members_alignment [] m = Some m"
| "members_alignment (Member n t off # fs) m =
     (case type_alignment t of
        None \<Rightarrow> None
      | Some d \<Rightarrow> members_alignment fs (if d > m then d else m))"

text \<open>Field updates of a type node (the C code assigns to the fields in place).\<close>

definition set_size :: "typetree \<Rightarrow> int \<Rightarrow> typetree" where
  "set_size t sz = Typetree (ttype t) sz (qualifier t) (members t) (func_vararg t) (tnext t)
     (tag_name t)"

definition set_members :: "typetree \<Rightarrow> member list \<Rightarrow> typetree" where
  "set_members t ms = Typetree (ttype t) (tsize t) (qualifier t) ms (func_vararg t) (tnext t)
     (tag_name t)"

definition set_func_vararg :: "typetree \<Rightarrow> bool \<Rightarrow> typetree" where
  "set_func_vararg t va = Typetree (ttype t) (tsize t) (qualifier t) (members t) va (tnext t)
     (tag_name t)"

text \<open>
  \<^verbatim>\<open>align_struct_members\<close>. \<open>align_fields\<close> is its loop: it walks the fields in
  order with the running size \<open>sz\<close> and \<open>max_alignment\<close>, and writes each offset. \<open>None\<close>
  is a trap (\<^verbatim>\<open>%\<close> by an alignment of 0) or the failed assertion after the padding.
  The two \<^verbatim>\<open>size += ...\<close> of the loop and the one after it are \<^verbatim>\<open>int\<close>
  additions and wrap.
\<close>

fun align_fields :: "member list \<Rightarrow> int \<Rightarrow> int \<Rightarrow> (member list \<times> int \<times> int) option" where
  "align_fields [] sz max_alignment = Some ([], sz, max_alignment)"
| "align_fields (field # rest) sz max_alignment =
     (case type_alignment (mtype field) of
        None \<Rightarrow> None
      | Some alignment \<Rightarrow>
          if alignment = 0 then None
          else
            let max_alignment' = (if alignment > max_alignment then alignment else max_alignment);
                sz' = (if c_mod sz alignment \<noteq> 0
                         then int32 (sz + (alignment - c_mod sz alignment)) else sz)
            in if c_mod sz' alignment \<noteq> 0 then None
               else (case align_fields rest (int32 (sz' + size_of (mtype field)))
                            max_alignment' of
                       None \<Rightarrow> None
                     | Some (rest', sz1, mx) \<Rightarrow>
                         Some (Member (mname field) (mtype field) sz' # rest', sz1, mx)))"

definition align_struct_members :: "member list \<Rightarrow> (member list \<times> int) option" where
  "align_struct_members list =
     (case align_fields list 0 0 of
        None \<Rightarrow> None
      | Some (fields, sz, max_alignment) \<Rightarrow>
          if max_alignment = 0 then None
          else Some (fields,
                 if c_mod sz max_alignment \<noteq> 0
                 then int32 (sz + (max_alignment - c_mod sz max_alignment)) else sz))"

text \<open>
  \<^verbatim>\<open>type_init(tt, ...)\<close>: the variadic arguments are the element type (pointer and
  array) and one integer (the count of an array, the size of an integer type); a shape
  that takes no argument ignores them. \<open>None\<close> is the failed assertion on an integer
  size and the null element type of an array. The size of an array is an \<^verbatim>\<open>int\<close>
  product and wraps.
\<close>

definition type_init :: "type_kind \<Rightarrow> typetree option \<Rightarrow> int \<Rightarrow> typetree option" where
  "type_init tt next_arg n =
     (if tt = T_POINTER then Some (Typetree tt 8 0 [] False next_arg None)
      else if tt = T_ARRAY then
        (case next_arg of
           None \<Rightarrow> None
         | Some e \<Rightarrow> Some (Typetree tt (int32 (size_of e * n)) 0 [] False next_arg None))
      else if tt = T_UNSIGNED \<or> tt = T_SIGNED then
        (if n = 8 \<or> n = 4 \<or> n = 2 \<or> n = 1 then Some (Typetree tt n 0 [] False None None)
         else None)
      else Some (Typetree tt 0 0 [] False None None))"

text \<open>
  \<^verbatim>\<open>type_add_member\<close>. The three assertions come first; a function type takes the
  name \<^verbatim>\<open>"..."\<close> as the vararg flag and decays an array parameter to a pointer; a
  struct is laid out again after every insertion; a union keeps the largest size.
\<close>

definition type_add_member ::
  "typetree \<Rightarrow> string option \<Rightarrow> typetree option \<Rightarrow> typetree option" where
  "type_add_member type member_name member_type =
     (if \<not> (is_struct_or_union type \<or> is_function type) then None
      else if is_function type \<and> func_vararg type then None
      else if is_tagged type then None
      else if is_function type \<and> member_name = Some ''...'' then
        Some (set_func_vararg type True)
      else
        (case member_type of
           None \<Rightarrow> None
         | Some mt \<Rightarrow>
             (case (if is_function type \<and> is_array mt then type_init T_POINTER (tnext mt) 0
                    else Some mt) of
                None \<Rightarrow> None
              | Some mt' \<Rightarrow>
                  let list = members type @ [Member member_name mt' 0]
                  in if is_struct type then
                       (case align_struct_members list of
                          None \<Rightarrow> None
                        | Some (fields, sz) \<Rightarrow> Some (set_size (set_members type fields) sz))
                     else if is_union type then
                       Some (set_size (set_members type list)
                              (if tsize type < size_of mt' then size_of mt' else tsize type))
                     else Some (set_members type list))))"

definition type_tagged_copy :: "typetree \<Rightarrow> string \<Rightarrow> typetree option" where
  "type_tagged_copy type name =
     (if is_tagged type then None
      else if \<not> is_struct_or_union type then None
      else Some (Typetree (ttype type) 0 0 [] False (Some type) (Some name)))"

text \<open>A struct built from an empty \<^verbatim>\<open>type_init(T_STRUCT)\<close> by a sequence of insertions.\<close>

fun add_members :: "typetree \<Rightarrow> (string \<times> typetree) list \<Rightarrow> typetree option" where
  "add_members t [] = Some t"
| "add_members t ((n, ty) # rest) =
     (case type_add_member t (Some n) (Some ty) of
        None \<Rightarrow> None
      | Some t' \<Rightarrow> add_members t' rest)"

definition struct_of :: "(string \<times> typetree) list \<Rightarrow> typetree option" where
  "struct_of fields =
     (case type_init T_STRUCT None 0 of None \<Rightarrow> None | Some t \<Rightarrow> add_members t fields)"

section \<open>Parameter classification (backend/x86_64/abi.c)\<close>

text \<open>
  Modelled from the spec: \<^verbatim>\<open>enum param_class\<close> and \<^verbatim>\<open>N_EIGHTBYTES\<close> (abi.h)
  and \<^verbatim>\<open>enum reg\<close> (instructions.h) are not among the sources. The classes are
  NoClass, Integer, SSE, SSEup and Memory, NoClass being the all-zero value
  \<^verbatim>\<open>memset\<close> writes; the eightbyte count is \<open>ceil(size_of(T) / 8)\<close>; a register index
  \<open>r\<close> has the 3-bit encoding \<open>(r - 1) % 8\<close> and \<open>r > DI\<close> identifies R8 to R15, so
  the indices follow the hardware numbering from \<open>AX = 1\<close>.
\<close>

datatype param_class = PC_NO_CLASS | PC_INTEGER | PC_SSE | PC_SSEUP | PC_MEMORY

definition N_EIGHTBYTES :: "typetree \<Rightarrow> int" where
  "N_EIGHTBYTES t = c_div (size_of t + 7) 8"

definition AX :: int where "AX = 1"

definition CX :: int where "CX = 2"

definition DX :: int where "DX = 3"

definition BX :: int where "BX = 4"

definition SP :: int where "SP = 5"

definition BP :: int where "BP = 6"


definition DI :: int where "DI = 8"



definition XMM0 :: int where "XMM0 = 17"

definition XMM7 :: int where "XMM7 = 24"


definition ret_int_reg :: "int list" where
  "ret_int_reg = [AX, DX]"

text \<open>
  \<^verbatim>\<open>has_unaligned_fields\<close>: the loop over the members of the unwrapped type;
  \<open>None\<close> is the trap of \<^verbatim>\<open>%\<close> by a member size of 0.
\<close>

fun unaligned_fields :: "member list \<Rightarrow> bool option" where
  "unaligned_fields [] = Some False"
| "unaligned_fields (m # ms) =
     (if size_of (mtype m) = 0 then None
      else if c_mod (moffset m) (size_of (mtype m)) \<noteq> 0 then Some True
      else unaligned_fields ms)"

definition has_unaligned_fields :: "typetree \<Rightarrow> bool option" where
  "has_unaligned_fields t =
     (if is_struct_or_union t then unaligned_fields (members (unwrapped t)) else Some False)"

definition combine :: "param_class \<Rightarrow> param_class \<Rightarrow> param_class" where
  "combine a b =
     (if a = b then a
      else if a = PC_NO_CLASS then b
      else if b = PC_NO_CLASS then a
      else if a = PC_MEMORY \<or> b = PC_MEMORY then PC_MEMORY
      else if a = PC_INTEGER \<or> b = PC_INTEGER then PC_INTEGER
      else PC_SSE)"

text \<open>
  \<^verbatim>\<open>flatten\<close> writes into the caller's array \<open>l\<close>; the model returns the updated
  array. \<open>flatten_members\<close> is the loop of the struct and union case,
  \<open>flatten_array\<close> the loop of the array case with index \<open>i\<close> and \<open>k\<close> iterations
  left. \<open>None\<close> is the \<^verbatim>\<open>assert(0)\<close> of the default case (void and function types),
  a null element type, a division by an element size of 0, or a write outside the
  array.
\<close>

function flatten :: "param_class list \<Rightarrow> typetree \<Rightarrow> int \<Rightarrow> param_class list option"
  and flatten_members :: "param_class list \<Rightarrow> member list \<Rightarrow> int \<Rightarrow> param_class list option"
  and flatten_array ::
    "param_class list \<Rightarrow> typetree \<Rightarrow> int \<Rightarrow> int \<Rightarrow> nat \<Rightarrow> param_class list option"
where
  "flatten l t offset =
     (if ttype t = T_REAL \<or> ttype t = T_UNSIGNED \<or> ttype t = T_SIGNED \<or> ttype t = T_POINTER
      then
        (let i = c_div offset 8
         in if 0 \<le> i \<and> i < int (length l)
            then Some (l[nat i := combine (l ! nat i)
                                  (if ttype t = T_REAL then PC_SSE else PC_INTEGER)])
            else None)
      else if ttype t = T_STRUCT \<or> ttype t = T_UNION then
        (case tnext t of
           None \<Rightarrow> flatten_members l (members t) offset
         | Some u \<Rightarrow> flatten_members l (members u) offset)
      else if ttype t = T_ARRAY then
        (case tnext t of
           None \<Rightarrow> None
         | Some e \<Rightarrow>
             if size_of e = 0 then None
             else flatten_array l e offset 0 (nat (c_div (tsize t) (size_of e))))
      else None)"
| "flatten_members l [] offset = Some l"
| "flatten_members l (m # ms) offset =
     (case flatten l (mtype m) (moffset m + offset) of
        None \<Rightarrow> None
      | Some l' \<Rightarrow> flatten_members l' ms offset)"
| "flatten_array l e offset i 0 = Some l"
| "flatten_array l e offset i (Suc k) =
     (case flatten l e (i * size_of e + offset) of
        None \<Rightarrow> None
      | Some l' \<Rightarrow> flatten_array l' e offset (i + 1) k)"
  by pat_completeness auto

termination flatten
proof -
  have m: "size_list size (members t) < size t" for t
    by (cases t) simp
  have n: "tnext t = Some u \<Longrightarrow> size u < size t" for t u
    by (cases t) simp
  have nm: "tnext t = Some u \<Longrightarrow> size_list size (members u) < size t" for t u
    using m [of u] n [of t u] by simp
  have mt: "size (mtype f) < Suc (size f + k)" for f k
    by (cases f) simp
  show ?thesis
    by (relation "inv_image (less_than <*lex*> less_than)
     (\<lambda>x. case x of Inl (l, t, off) \<Rightarrow> (size t, 0::nat)
               | Inr (Inl (l, ms, off)) \<Rightarrow> (size_list size ms, 0)
               | Inr (Inr (l, e, off, i, k)) \<Rightarrow> (size e, Suc k))")
      (auto simp: m n nm mt)
qed

text \<open>
  \<^verbatim>\<open>merge\<close>. \<open>merge_scan\<close> is its loop over the first \<open>n\<close> classes: the first
  component says that the loop returned early on a Memory class, the second is
  \<^verbatim>\<open>has_sseup\<close>.
\<close>

fun merge_scan :: "param_class list \<Rightarrow> bool \<Rightarrow> bool \<times> bool" where
  "merge_scan [] has_sseup = (False, has_sseup)"
| "merge_scan (c # cs) has_sseup =
     (if c = PC_MEMORY then (True, has_sseup)
      else if c = PC_SSEUP then merge_scan cs True
      else merge_scan cs has_sseup)"

definition merge :: "param_class list \<Rightarrow> int \<Rightarrow> bool" where
  "merge l n =
     (case merge_scan (take (nat n) l) False of
        (True, _) \<Rightarrow> True
      | (False, has_sseup) \<Rightarrow> n > 2 \<and> (l ! 0 \<noteq> PC_SSE \<or> \<not> has_sseup))"

text \<open>
  \<^verbatim>\<open>classify\<close>. The result is the array \<^verbatim>\<open>eb\<close>: one class, or
  \<^verbatim>\<open>N_EIGHTBYTES(t)\<close> classes for an aggregate that stays in registers. \<open>None\<close> is a
  failed assertion (function and void types) or a trap inside
  \<^verbatim>\<open>has_unaligned_fields\<close> or \<^verbatim>\<open>flatten\<close>.
\<close>

definition classify :: "typetree \<Rightarrow> param_class list option" where
  "classify t =
     (if ttype t = T_FUNCTION \<or> ttype t = T_VOID then None
      else if is_integer t \<or> is_pointer t then Some [PC_INTEGER]
      else if N_EIGHTBYTES t > 4 then Some [PC_MEMORY]
      else
        (case has_unaligned_fields t of
           None \<Rightarrow> None
         | Some True \<Rightarrow> Some [PC_MEMORY]
         | Some False \<Rightarrow>
             if is_struct_or_union t then
               (let n = N_EIGHTBYTES t
                in case flatten (replicate (nat n) PC_NO_CLASS) t 0 of
                     None \<Rightarrow> None
                   | Some eb \<Rightarrow> if merge eb n then Some [PC_MEMORY] else Some eb)
             else Some [PC_MEMORY]))"

text \<open>
  \<^verbatim>\<open>classify_call\<close>. \<open>classify_args\<close> is the first loop. \<open>place_args\<close> is the
  second: it walks the arguments left to right with the counter
  \<^verbatim>\<open>next_integer_reg\<close>, and overwrites the first class of an argument that does not
  fit into the registers left. The result is the pair of the returned \<^verbatim>\<open>params\<close>
  and of the classes written to \<^verbatim>\<open>*res\<close>. \<open>None\<close> is a failed \<^verbatim>\<open>classify\<close> or
  the read of the first class of an empty class array.
\<close>

fun classify_args :: "typetree list \<Rightarrow> param_class list list option" where
  "classify_args [] = Some []"
| "classify_args (a # as) =
     (case classify a of
        None \<Rightarrow> None
      | Some c \<Rightarrow> (case classify_args as of None \<Rightarrow> None | Some cs \<Rightarrow> Some (c # cs)))"

fun place_args ::
  "typetree list \<Rightarrow> param_class list list \<Rightarrow> int \<Rightarrow> param_class list list option"
where
  "place_args (a # as) ([] # ps) next_integer_reg = None"
| "place_args (a # as) ((c # cs) # ps) next_integer_reg =
     (if c \<noteq> PC_MEMORY then
        (let chunks = N_EIGHTBYTES a
         in if next_integer_reg + chunks \<le> 6 then
              (case place_args as ps (next_integer_reg + chunks) of
                 None \<Rightarrow> None
               | Some ps' \<Rightarrow> Some ((c # cs) # ps'))
            else
              (case place_args as ps next_integer_reg of
                 None \<Rightarrow> None
               | Some ps' \<Rightarrow> Some ((PC_MEMORY # cs) # ps')))
      else
        (case place_args as ps next_integer_reg of
           None \<Rightarrow> None
         | Some ps' \<Rightarrow> Some ((c # cs) # ps')))"
| "place_args _ _ next_integer_reg = Some []"

definition classify_call ::
  "typetree list \<Rightarrow> typetree \<Rightarrow> (param_class list list \<times> param_class list) option" where
  "classify_call args ret =
     (case classify_args args of
        None \<Rightarrow> None
      | Some params \<Rightarrow>
          (case (if ttype ret \<noteq> T_VOID then classify ret else Some [PC_NO_CLASS]) of
             None \<Rightarrow> None
           | Some [] \<Rightarrow> None
           | Some (r # rs) \<Rightarrow>
               (let next_integer_reg = (if ttype ret \<noteq> T_VOID \<and> r = PC_MEMORY then 1 else 0)
                in case place_args args params next_integer_reg of
                     None \<Rightarrow> None
                   | Some params' \<Rightarrow> Some (params', r # rs))))"

definition classify_signature ::
  "typetree \<Rightarrow> (param_class list list \<times> param_class list) option" where
  "classify_signature func =
     (if \<not> is_function func then None
      else case tnext func of
             None \<Rightarrow> None
           | Some ret \<Rightarrow> classify_call (map mtype (members func)) ret)"

text \<open>
  Modelled from the spec: the declaration of \<^verbatim>\<open>struct symbol\<close> (lacc/symbol.h) is
  not among the sources. The fields are the ones of the spec's Symbol that abi.c and
  declaration.c read and write; the type is held by value, as \<^verbatim>\<open>&sym->type\<close> shows.
\<close>

datatype symtype =
  SYM_DEFINITION | SYM_TENTATIVE | SYM_DECLARATION | SYM_TYPEDEF | SYM_ENUM_VALUE
  | SYM_STRING_VALUE | SYM_LABEL

datatype linkage = LINK_NONE | LINK_INTERN | LINK_EXTERN

record symbol =
  sym_name :: string
  sym_type :: typetree
  sym_symtype :: symtype
  sym_linkage :: linkage
  sym_depth :: int

text \<open>\<^verbatim>\<open>sym_alignment\<close>; \<open>None\<close> is the failed assertion of \<^verbatim>\<open>type_alignment\<close>.\<close>

definition sym_alignment :: "symbol \<Rightarrow> int option" where
  "sym_alignment symb =
     (case type_alignment (sym_type symb) of
        None \<Rightarrow> None
      | Some align \<Rightarrow> if is_array (sym_type symb) \<and> align < 16 then Some 16 else Some align)"

section \<open>Struct layout\<close>








section \<open>Classification of types and calls\<close>

text \<open>
  The sizes \<^verbatim>\<open>type_init\<close> gives integer and pointer types: 1, 2, 4 or 8 bytes for an
  integer (its assertion), 8 for a pointer.
\<close>

definition scalar_size_ok :: "typetree \<Rightarrow> bool" where
  "scalar_size_ok t =
     (if is_integer t then tsize t = 1 \<or> tsize t = 2 \<or> tsize t = 4 \<or> tsize t = 8
      else if is_pointer t then tsize t = 8 else True)"

text \<open>The three aggregates of the examples, as \<^verbatim>\<open>type_add_member\<close> lays them out.\<close>

definition struct_double2 :: typetree where
  "struct_double2 = Typetree T_STRUCT 16 0
     [Member (Some ''x'') basic_type__double 0, Member (Some ''y'') basic_type__double 8]
     False None None"

definition struct_long3 :: typetree where
  "struct_long3 = Typetree T_STRUCT 24 0
     [Member (Some ''a'') basic_type__long 0, Member (Some ''b'') basic_type__long 8,
      Member (Some ''c'') basic_type__long 16] False None None"

definition struct_int3 :: typetree where
  "struct_int3 = Typetree T_STRUCT 12 0
     [Member (Some ''a'') basic_type__int 0, Member (Some ''b'') basic_type__int 4,
      Member (Some ''c'') basic_type__int 8] False None None"



text \<open>The array type \<^verbatim>\<open>char [4]\<close>, as \<^verbatim>\<open>type_init(T_ARRAY, char, 4)\<close> builds it.\<close>

definition char4 :: typetree where
  "char4 = Typetree T_ARRAY 4 0 [] False (Some basic_type__char) None"

section \<open>Instruction encoder (backend/x86_64/instructions.c)\<close>

text \<open>
  Modelled from the spec: instructions.h (the instruction, operand, register, address,
  immediate and code records and the opcode and optype enumerations) is not among the
  sources. The records have the fields instructions.c reads. A register holds its
  \<^verbatim>\<open>enum reg\<close> index \<open>r\<close> and its byte width \<open>w\<close> as C \<^verbatim>\<open>int\<close>s. An immediate
  holds its kind, its width, the bits \<open>d\<close> shared by the integer members of the C
  union (\<^verbatim>\<open>byte\<close>, \<^verbatim>\<open>word\<close>, \<^verbatim>\<open>dword\<close> and \<^verbatim>\<open>qword\<close> are the low 1, 2, 4
  and 8 bytes, read as signed) and the address member. The C operand is a union of a
  register, a memory reference and an immediate, interpreted by the optype; the model
  keeps the three readings side by side, so what holds for every operand of the model
  holds for every content of the union. \<open>INSTR_OTHER\<close> stands for every opcode value
  that \<^verbatim>\<open>encode\<close> does not name.
\<close>

datatype instr_opcode =
  INSTR_ADD | INSTR_NOT | INSTR_MUL | INSTR_XOR | INSTR_DIV | INSTR_AND | INSTR_OR
  | INSTR_SHL | INSTR_SHR | INSTR_SAR | INSTR_CALL | INSTR_CMP | INSTR_MOV | INSTR_MOVSX
  | INSTR_MOVZX | INSTR_MOVAPS | INSTR_PUSH | INSTR_SUB | INSTR_LEA | INSTR_LEAVE
  | INSTR_REP_MOVSQ | INSTR_RET | INSTR_JMP | INSTR_JA | INSTR_JG | INSTR_JZ | INSTR_JAE
  | INSTR_JGE | INSTR_SETZ | INSTR_SETA | INSTR_SETG | INSTR_SETAE | INSTR_SETGE
  | INSTR_TEST | INSTR_OTHER int

datatype instr_optype =
  OPT_NONE | OPT_REG | OPT_MEM | OPT_IMM | OPT_REG_REG | OPT_REG_MEM | OPT_MEM_REG
  | OPT_IMM_REG | OPT_IMM_MEM

datatype imm_kind = IMM_INT | IMM_ADDR

record address =
  addr_sym :: "symbol option"
  addr_base :: int
  addr_offset :: int
  addr_disp :: int

record registr =
  reg_r :: int
  reg_w :: int

record memory =
  mem_addr :: address
  mem_w :: int

record immediate =
  imm_type :: imm_kind
  imm_w :: int
  imm_d :: "64 word"
  imm_addr :: address

record operand =
  op_reg :: registr
  op_mem :: memory
  op_imm :: immediate

record instruction =
  i_opcode :: instr_opcode
  i_optype :: instr_optype
  i_source :: operand
  i_dest :: operand

text \<open>
  \<^verbatim>\<open>struct code\<close>: the 16-byte buffer \<open>val\<close> and the length \<open>len\<close>. The bytes of
  the instruction are the first \<open>len\<close> bytes of the buffer.
\<close>

record code =
  val :: "8 word list"
  len :: nat

definition code_bytes :: "code \<Rightarrow> 8 word list" where
  "code_bytes c = take (len c) (val c)"

text \<open>
  Modelled from the spec: elf.c is not among the sources. The encoder uses two of its
  functions. \<^verbatim>\<open>elf_add_reloc_text(sym, kind, offset, addend)\<close> registers a relocation
  at the current text offset plus \<open>offset\<close>. \<^verbatim>\<open>elf_text_displacement(sym, offset)\<close>
  returns the signed distance from the current write position to the text offset of
  \<open>sym\<close> when that is resolved; otherwise it returns 0 and arranges for a later fixup
  of the position. The state holds the current text offset, the resolved label offsets
  by symbol name, the relocations registered and the fixups pending.
\<close>

datatype reloc_type = R_X86_64_PC32 | R_X86_64_32S

record elf_state =
  text_offset :: int
  label_offsets :: "(string \<times> int) list"
  relocs :: "(symbol option \<times> reloc_type \<times> int \<times> int) list"
  pending :: "(symbol \<times> int) list"

definition elf_add_reloc_text ::
  "symbol option \<Rightarrow> reloc_type \<Rightarrow> int \<Rightarrow> int \<Rightarrow> elf_state \<Rightarrow> elf_state" where
  "elf_add_reloc_text symb kind offset addend st =
     st\<lparr>relocs := relocs st @ [(symb, kind, text_offset st + offset, addend)]\<rparr>"

definition elf_text_displacement :: "symbol \<Rightarrow> int \<Rightarrow> elf_state \<Rightarrow> int \<times> elf_state" where
  "elf_text_displacement symb instr_offset st =
     (case map_of (label_offsets st) (sym_name symb) of
        Some target \<Rightarrow> (target - (text_offset st + instr_offset), st)
      | None \<Rightarrow> (0, st\<lparr>pending := pending st @ [(symb, text_offset st + instr_offset)]\<rparr>))"

text \<open>
  Writes into the buffer. A value stored into an \<^verbatim>\<open>unsigned char\<close> keeps its low 8
  bits; \<^verbatim>\<open>memcpy\<close> from an integer copies its bytes lowest first (the compiler runs
  on the x86-64 it targets). C does not check the index of a write: \<open>val\<close> is the
  memory that starts at the buffer, its first 16 bytes being the buffer itself, and
  \<open>store\<close> writes one byte of it. A write at an index of 16 or more lands behind the
  buffer and makes the list longer, so the buffer has not been overrun as long as
  \<open>val\<close> has 16 bytes. A byte behind the buffer that was never written reads as 0.
\<close>

definition byte :: "int \<Rightarrow> 8 word" where
  "byte x = word_of_int x"

definition le_bytes :: "nat \<Rightarrow> 64 word \<Rightarrow> 8 word list" where
  "le_bytes n x = map (\<lambda>i. ucast (drop_bit (8 * i) x)) [0..<n]"

definition store :: "nat \<Rightarrow> 8 word \<Rightarrow> 8 word list \<Rightarrow> 8 word list" where
  "store i b xs =
     (if i < length xs then xs[i := b] else xs @ replicate (i - length xs) 0 @ [b])"

definition code_init :: "int list \<Rightarrow> nat \<Rightarrow> code" where
  "code_init bs n = \<lparr>val = map byte bs @ replicate (16 - length bs) 0, len = n\<rparr>"

definition put :: "nat \<Rightarrow> int \<Rightarrow> code \<Rightarrow> code" where
  "put i x c = c\<lparr>val := store i (byte x) (val c)\<rparr>"

definition emit :: "int \<Rightarrow> code \<Rightarrow> code" where
  "emit x c = c\<lparr>val := store (len c) (byte x) (val c), len := len c + 1\<rparr>"

fun emit_bytes :: "8 word list \<Rightarrow> code \<Rightarrow> code" where
  "emit_bytes [] c = c"
| "emit_bytes (b # bs) c = emit_bytes bs (c\<lparr>val := store (len c) b (val c), len := len c + 1\<rparr>)"

definition or_at :: "nat \<Rightarrow> int \<Rightarrow> code \<Rightarrow> code" where
  "or_at i x c =
     c\<lparr>val := store i ((if i < length (val c) then val c ! i else 0) OR byte x) (val c)\<rparr>"

text \<open>The macros of instructions.c, on C \<^verbatim>\<open>int\<close>s.\<close>

definition reg :: "int \<Rightarrow> int" where "reg r = c_mod (r - 1) 8"

definition is_64_bit :: "int \<Rightarrow> int" where "is_64_bit w = drop_bit 3 w"

definition is_32_bit :: "int \<Rightarrow> int" where "is_32_bit w = (drop_bit 2 w) AND 1"

definition is_16_bit :: "int \<Rightarrow> int" where "is_16_bit w = (drop_bit 1 w) AND 1"

definition is_64_bit_reg :: "int \<Rightarrow> int" where "is_64_bit_reg r = (if r > DI then 1 else 0)"

definition REX :: int where "REX = 0x40"

definition rex_W :: "int \<Rightarrow> int" where "rex_W w = push_bit 3 (is_64_bit w)"

definition rex_R :: "int \<Rightarrow> int" where "rex_R r = push_bit 2 (is_64_bit_reg r)"

definition rex_B :: "int \<Rightarrow> int" where "rex_B r = is_64_bit_reg r"

definition opsize_w :: "int \<Rightarrow> int" where "opsize_w w = (NOT w) AND 1"

definition in_byte_range :: "int \<Rightarrow> bool" where "in_byte_range x = (x \<ge> -128 \<and> x \<le> 127)"

definition in_32bit_range :: "int \<Rightarrow> bool" where
  "in_32bit_range x = (x \<ge> -2147483648 \<and> x \<le> 2147483647)"

definition PREFIX_SSE :: int where "PREFIX_SSE = 0x0F"

definition TEST_AE :: int where "TEST_AE = 0x3"

definition TEST_Z :: int where "TEST_Z = 0x4"

definition TEST_A :: int where "TEST_A = 0x7"

definition TEST_GE :: int where "TEST_GE = 0xD"

definition TEST_G :: int where "TEST_G = 0xF"

definition requires_prefix :: "address \<Rightarrow> bool" where
  "requires_prefix addr =
     (if addr_sym addr \<noteq> None then False
      else is_64_bit_reg (addr_base addr) \<noteq> 0 \<or> is_64_bit_reg (addr_offset addr) \<noteq> 0)"

definition encode_sib_addr :: "code \<Rightarrow> int \<Rightarrow> address \<Rightarrow> elf_state \<Rightarrow> code \<times> elf_state" where
  "encode_sib_addr c r addr st =
     (if addr_sym addr \<noteq> None then
        (let c1 = emit ((push_bit 3 (r AND 0x7)) OR 0x5) c;
             st1 = elf_add_reloc_text (addr_sym addr) R_X86_64_PC32 (int (len c1))
                     (addr_disp addr) st
         in (emit_bytes [0, 0, 0, 0] c1, st1))
      else
        (let c1 = put (len c) ((push_bit 3 (r AND 0x7)) OR c_mod (addr_base addr - 1) 8) c
         in if addr_disp addr \<noteq> 0 then
              (if in_byte_range (addr_disp addr) then
                 (emit (addr_disp addr) ((or_at (len c1) 0x40 c1)\<lparr>len := len c1 + 1\<rparr>), st)
               else
                 (emit_bytes (le_bytes 4 (word_of_int (addr_disp addr)))
                    ((or_at (len c1) 0x80 c1)\<lparr>len := len c1 + 1\<rparr>), st))
            else (c1\<lparr>len := len c1 + 1\<rparr>, st)))"

definition is_byte_imm :: "immediate \<Rightarrow> bool" where
  "is_byte_imm imm =
     (imm_type imm = IMM_INT \<and>
      (imm_w imm = 1
       \<or> (imm_w imm = 2 \<and> in_byte_range (sint (ucast (imm_d imm) :: 16 word)))
       \<or> (imm_w imm = 4 \<and> in_byte_range (sint (ucast (imm_d imm) :: 32 word)))
       \<or> in_byte_range (sint (imm_d imm))))"

definition is_32bit_imm :: "immediate \<Rightarrow> bool" where
  "is_32bit_imm imm = (imm_type imm = IMM_INT \<and> (imm_w imm < 8 \<or> in_32bit_range (sint (imm_d imm))))"

definition nop :: code where
  "nop = code_init [0x90] 1"

text \<open>
  The opcode builders. Each returns the code and the ELF state after its calls;
  \<open>None\<close> is a failed assertion, which aborts the compiler.
\<close>

definition mov ::
  "instr_optype \<Rightarrow> operand \<Rightarrow> operand \<Rightarrow> elf_state \<Rightarrow> (code \<times> elf_state) option" where
  "mov optype a b st =
     (let c = nop in
      if optype = OPT_IMM_REG then
        (let c = c\<lparr>len := 0\<rparr>;
             c = (if is_64_bit (reg_w (op_reg b)) \<noteq> 0 \<or> is_64_bit_reg (reg_r (op_reg b)) \<noteq> 0
                  then emit (REX OR rex_W (reg_w (op_reg b)) OR rex_B (reg_r (op_reg b))) c
                  else c);
             c = emit (0xB8 OR push_bit 3 (opsize_w (reg_w (op_reg b))) OR reg (reg_r (op_reg b))) c
         in if imm_w (op_imm a) = 1 then
              (if imm_type (op_imm a) \<noteq> IMM_INT then None
               else Some (emit_bytes (le_bytes 1 (imm_d (op_imm a))) c, st))
            else if imm_w (op_imm a) = 2 then
              (if imm_type (op_imm a) \<noteq> IMM_INT then None
               else Some (emit_bytes (le_bytes 2 (imm_d (op_imm a))) c, st))
            else if is_32bit_imm (op_imm a) \<or> imm_type (op_imm a) = IMM_ADDR then
              (let c = (if is_64_bit (reg_w (op_reg b)) \<noteq> 0
                        then (put 2 (0xC0 OR reg (reg_r (op_reg b))) (put 1 0xC7 c))\<lparr>len := 3\<rparr>
                        else c)
               in if imm_type (op_imm a) = IMM_INT then
                    Some (emit_bytes (le_bytes 4 (imm_d (op_imm a))) c, st)
                  else
                    Some (emit_bytes [0, 0, 0, 0] c,
                      elf_add_reloc_text (addr_sym (imm_addr (op_imm a))) R_X86_64_32S
                        (int (len c)) (addr_disp (imm_addr (op_imm a))) st))
            else
              (if imm_w (op_imm a) \<noteq> 8 then None
               else if imm_type (op_imm a) \<noteq> IMM_INT then None
               else Some (emit_bytes (le_bytes 8 (imm_d (op_imm a))) c, st)))
      else if optype = OPT_REG_REG then
        (if reg_w (op_reg a) \<noteq> reg_w (op_reg b) then None
         else Some (put 2 (0xC0 OR push_bit 3 (reg (reg_r (op_reg a))) OR reg (reg_r (op_reg b)))
                (put 1 (0x88 + is_64_bit (reg_w (op_reg a)))
                  (put 0 (REX OR rex_W (reg_w (op_reg a)) OR rex_R (reg_r (op_reg a))
                          OR rex_B (reg_r (op_reg b))) (c\<lparr>len := 3\<rparr>))), st))
      else if optype = OPT_REG_MEM then
        (let c = c\<lparr>len := 0\<rparr>;
             c = (if is_16_bit (reg_w (op_reg a)) \<noteq> 0 then emit 0x66 c
                  else if is_64_bit (reg_w (op_reg a)) \<noteq> 0
                          \<or> is_64_bit_reg (reg_r (op_reg a)) \<noteq> 0
                          \<or> requires_prefix (mem_addr (op_mem b))
                  then emit (REX OR rex_W (reg_w (op_reg a))
                             OR is_64_bit_reg (addr_base (mem_addr (op_mem b)))) c
                  else c);
             c = emit (0x88 + opsize_w (reg_w (op_reg a))) c
         in Some (encode_sib_addr c (reg (reg_r (op_reg a))) (mem_addr (op_mem b)) st))
      else if optype = OPT_MEM_REG then
        (let c = c\<lparr>len := 0\<rparr>;
             c = (if is_64_bit (reg_w (op_reg b)) \<noteq> 0 \<or> is_64_bit_reg (reg_r (op_reg b)) \<noteq> 0
                  then emit (REX OR rex_W (reg_w (op_reg b)) OR rex_R (reg_r (op_reg b))) c
                  else c);
             c = emit (0x8A + opsize_w (reg_w (op_reg b))) c
         in Some (encode_sib_addr c (reg (reg_r (op_reg b))) (mem_addr (op_mem a)) st))
      else Some (c, st))"

definition movsx ::
  "instr_optype \<Rightarrow> operand \<Rightarrow> operand \<Rightarrow> elf_state \<Rightarrow> (code \<times> elf_state) option" where
  "movsx optype a b st =
     (let c = code_init [0] 0 in
      if optype \<noteq> OPT_MEM_REG then None
      else
        (let c = (if is_64_bit (reg_w (op_reg b)) \<noteq> 0 \<or> is_64_bit_reg (reg_r (op_reg b)) \<noteq> 0
                     \<or> is_64_bit_reg (addr_base (mem_addr (op_mem a))) \<noteq> 0
                  then (let c1 = put (len c) (REX OR rex_W (reg_w (op_reg b))
                                              OR rex_R (reg_r (op_reg b))) c
                        in (or_at (len c1) (is_64_bit_reg (addr_base (mem_addr (op_mem a)))) c1)
                             \<lparr>len := len c1 + 1\<rparr>)
                  else c);
             c = (if is_32_bit (mem_w (op_mem a)) \<noteq> 0 \<and> is_64_bit (reg_w (op_reg b)) \<noteq> 0
                  then emit 0x63 c
                  else emit (0xBE OR opsize_w (mem_w (op_mem a))) (emit 0x0F c))
         in Some (encode_sib_addr c (reg (reg_r (op_reg b))) (mem_addr (op_mem a)) st)))"

definition movzx ::
  "instr_optype \<Rightarrow> operand \<Rightarrow> operand \<Rightarrow> elf_state \<Rightarrow> (code \<times> elf_state) option" where
  "movzx optype a b st =
     (let c = code_init [0] 0;
          c = (if is_64_bit (reg_w (op_reg b)) \<noteq> 0
               then emit (REX OR rex_W (reg_w (op_reg b)) OR rex_R (reg_r (op_reg b))) c
               else c);
          c = emit 0x0F c
      in if optype = OPT_REG_REG then
           Some (emit (0xC0 OR push_bit 3 (reg (reg_r (op_reg b))) OR reg (reg_r (op_reg a)))
                   (emit (0xB6 OR opsize_w (reg_w (op_reg a))) c), st)
         else if optype \<noteq> OPT_MEM_REG then None
         else Some (encode_sib_addr (emit (0xB6 OR opsize_w (mem_w (op_mem a))) c)
                      (reg (reg_r (op_reg b))) (mem_addr (op_mem a)) st))"

definition movaps ::
  "instr_optype \<Rightarrow> operand \<Rightarrow> operand \<Rightarrow> elf_state \<Rightarrow> (code \<times> elf_state) option" where
  "movaps optype a b st =
     (let c = code_init [PREFIX_SSE, 0x29] 2 in
      if optype \<noteq> OPT_REG_MEM then None
      else if \<not> (reg_r (op_reg a) \<ge> XMM0 \<and> reg_r (op_reg a) \<le> XMM7) then None
      else Some (encode_sib_addr c (reg_r (op_reg a) - XMM0) (mem_addr (op_mem b)) st))"

definition push :: "instr_optype \<Rightarrow> operand \<Rightarrow> elf_state \<Rightarrow> (code \<times> elf_state) option" where
  "push optype op st =
     (let c = nop in
      if optype = OPT_REG then Some (put 0 (0x50 + reg (reg_r (op_reg op))) c, st)
      else Some (c, st))"

definition sub ::
  "instr_optype \<Rightarrow> operand \<Rightarrow> operand \<Rightarrow> elf_state \<Rightarrow> (code \<times> elf_state) option" where
  "sub optype a b st =
     (let c = nop in
      if optype = OPT_IMM_REG then
        (if is_64_bit (reg_w (op_reg b)) = 0 then None
         else
           (let c = put 0 (REX OR rex_W (reg_w (op_reg b)) OR rex_B (reg_r (op_reg b))) c;
                c = put 1 (0x81 OR push_bit 1 (if is_byte_imm (op_imm a) then 1 else 0)) c;
                c = put 2 (0xE8 OR reg (reg_r (op_reg b))) c
            in if is_byte_imm (op_imm a) then
                 Some ((put 3 (uint (ucast (imm_d (op_imm a)) :: 8 word)) c)\<lparr>len := 4\<rparr>, st)
               else if is_32bit_imm (op_imm a) then
                 Some ((emit_bytes (le_bytes 4 (imm_d (op_imm a))) (c\<lparr>len := 3\<rparr>))\<lparr>len := 7\<rparr>, st)
               else Some (c, st)))
      else if optype = OPT_REG_REG then
        (let c = c\<lparr>len := 0\<rparr>;
             c = (if is_64_bit (reg_w (op_reg a)) \<noteq> 0
                  then (put 0 (REX OR rex_W (reg_w (op_reg a)) OR rex_R (reg_r (op_reg a))
                               OR rex_B (reg_r (op_reg b))) c)\<lparr>len := 1\<rparr>
                  else c);
             c = emit (0x28 OR opsize_w (reg_w (op_reg a))) c;
             c = emit (0xC0 OR push_bit 3 (reg (reg_r (op_reg a))) OR reg (reg_r (op_reg b))) c
         in Some (c, st))
      else None)"

definition add ::
  "instr_optype \<Rightarrow> operand \<Rightarrow> operand \<Rightarrow> elf_state \<Rightarrow> (code \<times> elf_state) option" where
  "add optype a b st =
     (let c = nop in
      if optype = OPT_REG_REG then
        (let c = c\<lparr>len := 0\<rparr>;
             c = (if is_64_bit (reg_w (op_reg a)) \<noteq> 0
                  then emit (REX OR rex_W (reg_w (op_reg a)) OR rex_R (reg_r (op_reg a))
                             OR rex_B (reg_r (op_reg b))) c
                  else c);
             c = emit (0x00 OR opsize_w (reg_w (op_reg a))) c;
             c = emit (0xC0 OR push_bit 3 (reg (reg_r (op_reg a))) OR reg (reg_r (op_reg b))) c
         in Some (c, st))
      else if optype = OPT_IMM_REG then Some (c, st)
      else if optype = OPT_IMM_MEM then Some (c, st)
      else None)"

definition call :: "instr_optype \<Rightarrow> operand \<Rightarrow> elf_state \<Rightarrow> (code \<times> elf_state) option" where
  "call optype op st =
     (let c = code_init [0] 0 in
      if optype = OPT_IMM then
        (if imm_type (op_imm op) \<noteq> IMM_ADDR then None
         else if addr_sym (imm_addr (op_imm op)) = None then None
         else
           (let c = emit 0xE8 c;
                st1 = elf_add_reloc_text (addr_sym (imm_addr (op_imm op))) R_X86_64_PC32
                        (int (len c)) (addr_disp (imm_addr (op_imm op))) st
            in Some (c\<lparr>len := len c + 4\<rparr>, st1)))
      else if optype \<noteq> OPT_REG then None
      else if is_64_bit_reg (reg_r (op_reg op)) = 0 then None
      else
        Some (emit (0xD0 OR reg (reg_r (op_reg op)))
               (emit 0xFF (emit (REX OR opsize_w (reg_w (op_reg op))) c)), st))"

definition cmp ::
  "instr_optype \<Rightarrow> operand \<Rightarrow> operand \<Rightarrow> elf_state \<Rightarrow> (code \<times> elf_state) option" where
  "cmp optype a b st =
     (let c = nop\<lparr>len := 0\<rparr> in
      if optype = OPT_IMM_REG then
        (if is_64_bit (reg_w (op_reg b)) = 0 \<and> is_64_bit_reg (reg_r (op_reg b)) = 0 then
           (let c = emit (0x80 OR opsize_w (reg_w (op_reg b))) c;
                c = emit (0xF8 OR reg (reg_r (op_reg b))) c
            in if is_byte_imm (op_imm a) then
                 Some (emit (uint (ucast (imm_d (op_imm a)) :: 8 word)) (or_at 0 2 c), st)
               else if imm_w (op_imm a) \<noteq> 4 then None
               else Some (emit_bytes (le_bytes 4 (imm_d (op_imm a))) c, st))
         else None)
      else if optype = OPT_REG_REG then
        (if reg_w (op_reg a) \<noteq> reg_w (op_reg b) then None
         else if is_64_bit (reg_w (op_reg a)) = 0 \<and> is_64_bit_reg (reg_r (op_reg a)) = 0 then
           Some (emit (0xC0 OR push_bit 3 (reg (reg_r (op_reg a))) OR reg (reg_r (op_reg b)))
                   (emit (0x38 OR opsize_w (reg_w (op_reg a))) c), st)
         else None)
      else None)"

text \<open>
  \<^verbatim>\<open>jcc\<close> and \<^verbatim>\<open>jmp\<close> store the 32-bit displacement through an \<^verbatim>\<open>int\<close> pointer
  into the buffer, lowest byte first. Neither calls \<^verbatim>\<open>elf_add_reloc_text\<close>.
\<close>

definition jcc ::
  "instr_optype \<Rightarrow> int \<Rightarrow> operand \<Rightarrow> elf_state \<Rightarrow> (code \<times> elf_state) option" where
  "jcc optype cond op st =
     (let c = code_init [0x0F, 0x80] 2;
          addr = imm_addr (op_imm op)
      in if optype \<noteq> OPT_IMM then None
         else case addr_sym addr of
                None \<Rightarrow> None
              | Some symb \<Rightarrow>
                  (let c = or_at 1 cond c;
                       (d, st1) = elf_text_displacement symb (int (len c)) st;
                       disp = d + addr_disp addr - 4
                   in Some (emit_bytes (le_bytes 4 (word_of_int disp)) c, st1)))"

definition jmp :: "instr_optype \<Rightarrow> operand \<Rightarrow> elf_state \<Rightarrow> (code \<times> elf_state) option" where
  "jmp optype op st =
     (let c = code_init [0xE9] 1;
          addr = imm_addr (op_imm op)
      in if optype \<noteq> OPT_IMM then None
         else case addr_sym addr of
                None \<Rightarrow> None
              | Some symb \<Rightarrow>
                  (let (d, st1) = elf_text_displacement symb (int (len c)) st;
                       disp = d + addr_disp addr - 4
                   in Some (emit_bytes (le_bytes 4 (word_of_int disp)) c, st1)))"

definition leave :: "elf_state \<Rightarrow> (code \<times> elf_state) option" where
  "leave st = Some (code_init [0xC9] 1, st)"

definition lea ::
  "instr_optype \<Rightarrow> operand \<Rightarrow> operand \<Rightarrow> elf_state \<Rightarrow> (code \<times> elf_state) option" where
  "lea optype a b st =
     (let c = code_init [0] 0 in
      if optype \<noteq> OPT_MEM_REG then None
      else if is_64_bit (reg_w (op_reg b)) = 0 then None
      else
        (let c = emit (REX OR rex_W (reg_w (op_reg b)) OR rex_R (reg_r (op_reg b))) c;
             c = emit 0x8D c
         in Some (encode_sib_addr c (reg (reg_r (op_reg b))) (mem_addr (op_mem a)) st)))"

definition rep_movsq :: "elf_state \<Rightarrow> (code \<times> elf_state) option" where
  "rep_movsq st = Some (code_init [0xF3, REX + 8, 0xA5] 3, st)"

definition ret :: "elf_state \<Rightarrow> (code \<times> elf_state) option" where
  "ret st = Some (code_init [0xC3] 1, st)"

definition setcc ::
  "instr_optype \<Rightarrow> int \<Rightarrow> operand \<Rightarrow> elf_state \<Rightarrow> (code \<times> elf_state) option" where
  "setcc optype cond op st =
     (let c = code_init [0] 0 in
      if \<not> (optype = OPT_REG \<and> is_64_bit (reg_w (op_reg op)) = 0) then None
      else Some (emit (0xC0 OR reg (reg_r (op_reg op))) (emit (0x90 OR cond) (emit 0x0F c)), st))"

definition test ::
  "instr_optype \<Rightarrow> operand \<Rightarrow> operand \<Rightarrow> elf_state \<Rightarrow> (code \<times> elf_state) option" where
  "test optype a b st =
     (let c = code_init [0] 0 in
      if \<not> (optype = OPT_REG_REG \<and> is_64_bit_reg (reg_r (op_reg a)) = 0) then None
      else Some (emit (0xC0 OR push_bit 3 (reg (reg_r (op_reg a))) OR reg (reg_r (op_reg b)))
                   (emit (0x84 OR opsize_w (reg_w (op_reg a))) c), st))"

definition encode_not :: "instr_optype \<Rightarrow> operand \<Rightarrow> elf_state \<Rightarrow> (code \<times> elf_state) option" where
  "encode_not optype op st =
     (let c = code_init [0] 0 in
      if optype \<noteq> OPT_REG then None
      else
        (let c = (if is_64_bit_reg (reg_r (op_reg op)) \<noteq> 0 \<or> reg_w (op_reg op) > 4
                  then emit (REX OR rex_W (reg_w (op_reg op)) OR rex_B (reg_r (op_reg op))) c
                  else c);
             c = emit (0xF6 OR opsize_w (reg_w (op_reg op))) c;
             c = emit (0xD0 OR reg (reg_r (op_reg op))) c
         in Some (c, st)))"

definition mul :: "instr_optype \<Rightarrow> operand \<Rightarrow> elf_state \<Rightarrow> (code \<times> elf_state) option" where
  "mul optype op st =
     (let c = code_init [0] 0 in
      if optype = OPT_REG then
        (let c = (if is_64_bit_reg (reg_r (op_reg op)) \<noteq> 0 \<or> reg_w (op_reg op) > 4
                  then emit (REX OR rex_W (reg_w (op_reg op)) OR rex_B (reg_r (op_reg op))) c
                  else c);
             c = emit (0xF6 OR opsize_w (reg_w (op_reg op))) c;
             c = emit (0xE0 OR reg (reg_r (op_reg op))) c
         in Some (c, st))
      else if optype \<noteq> OPT_MEM then None
      else
        (let c = (if mem_w (op_mem op) > 4
                  then emit (REX OR rex_W (mem_w (op_mem op))
                             OR is_64_bit_reg (addr_base (mem_addr (op_mem op)))) c
                  else c);
             c = emit (0xF6 OR opsize_w (mem_w (op_mem op))) c
         in Some (encode_sib_addr c 0x4 (mem_addr (op_mem op)) st)))"

definition encode_div ::
  "instr_optype \<Rightarrow> operand \<Rightarrow> elf_state \<Rightarrow> (code \<times> elf_state) option" where
  "encode_div optype op st =
     (let c = code_init [0] 0 in
      if optype = OPT_REG then
        (let c = (if is_64_bit_reg (reg_r (op_reg op)) \<noteq> 0 \<or> reg_w (op_reg op) > 4
                  then emit (REX OR rex_W (reg_w (op_reg op)) OR rex_B (reg_r (op_reg op))) c
                  else c);
             c = emit (0xF6 OR opsize_w (reg_w (op_reg op))) c;
             c = emit (0xF0 OR reg (reg_r (op_reg op))) c
         in Some (c, st))
      else if optype \<noteq> OPT_MEM then None
      else
        (let c = (if mem_w (op_mem op) > 4
                  then emit (REX OR rex_W (mem_w (op_mem op))
                             OR is_64_bit_reg (addr_base (mem_addr (op_mem op)))) c
                  else c);
             c = emit (0xF6 OR opsize_w (mem_w (op_mem op))) c
         in Some (encode_sib_addr c 0x6 (mem_addr (op_mem op)) st)))"

definition basic_register_only_encode :: "int \<Rightarrow> registr \<Rightarrow> registr \<Rightarrow> code" where
  "basic_register_only_encode opc a b =
     (let c = code_init [0] 0;
          c = (if is_64_bit_reg (reg_r a) \<noteq> 0 \<or> reg_w a > 4
               then emit (REX OR rex_W (reg_w a) OR rex_R (reg_r a) OR rex_B (reg_r b)) c
               else c);
          c = emit (opc OR opsize_w (reg_w a)) c;
          c = emit (0xC0 OR push_bit 3 (reg (reg_r a)) OR reg (reg_r b)) c
      in c)"

definition encode_xor ::
  "instr_optype \<Rightarrow> operand \<Rightarrow> operand \<Rightarrow> elf_state \<Rightarrow> (code \<times> elf_state) option" where
  "encode_xor optype a b st =
     (if optype \<noteq> OPT_REG_REG then None
      else Some (basic_register_only_encode 0x30 (op_reg a) (op_reg b), st))"

definition encode_and ::
  "instr_optype \<Rightarrow> operand \<Rightarrow> operand \<Rightarrow> elf_state \<Rightarrow> (code \<times> elf_state) option" where
  "encode_and optype a b st =
     (if optype \<noteq> OPT_REG_REG then None
      else Some (basic_register_only_encode 0x20 (op_reg a) (op_reg b), st))"

definition encode_or ::
  "instr_optype \<Rightarrow> operand \<Rightarrow> operand \<Rightarrow> elf_state \<Rightarrow> (code \<times> elf_state) option" where
  "encode_or optype a b st =
     (if optype \<noteq> OPT_REG_REG then None
      else Some (basic_register_only_encode 0x08 (op_reg a) (op_reg b), st))"

definition shl ::
  "instr_optype \<Rightarrow> operand \<Rightarrow> operand \<Rightarrow> elf_state \<Rightarrow> (code \<times> elf_state) option" where
  "shl optype a b st =
     (let c = code_init [0] 0 in
      if optype \<noteq> OPT_REG_REG then None
      else if \<not> (reg_r (op_reg a) = CX \<and> reg_w (op_reg a) = 1) then None
      else
        (let c = (if is_64_bit_reg (reg_r (op_reg b)) \<noteq> 0 \<or> reg_w (op_reg b) > 4
                  then emit (REX OR rex_W (reg_w (op_reg b)) OR rex_B (reg_r (op_reg b))) c
                  else c);
             c = emit (0xD2 OR opsize_w (reg_w (op_reg b))) c;
             c = emit (0xE0 OR reg (reg_r (op_reg b))) c
         in Some (c, st)))"

definition shr ::
  "instr_optype \<Rightarrow> operand \<Rightarrow> operand \<Rightarrow> elf_state \<Rightarrow> (code \<times> elf_state) option" where
  "shr optype a b st =
     (let c = code_init [0] 0 in
      if optype \<noteq> OPT_REG_REG then None
      else if \<not> (reg_r (op_reg a) = CX \<and> reg_w (op_reg a) = 1) then None
      else
        (let c = (if is_64_bit_reg (reg_r (op_reg b)) \<noteq> 0 \<or> reg_w (op_reg b) > 4
                  then emit (REX OR rex_W (reg_w (op_reg b)) OR rex_B (reg_r (op_reg b))) c
                  else c);
             c = emit (0xD2 OR opsize_w (reg_w (op_reg b))) c;
             c = emit (0xF8 OR reg (reg_r (op_reg b))) c
         in Some (c, st)))"

definition sar ::
  "instr_optype \<Rightarrow> operand \<Rightarrow> operand \<Rightarrow> elf_state \<Rightarrow> (code \<times> elf_state) option" where
  "sar optype a b st =
     (let c = code_init [0] 0 in
      if optype \<noteq> OPT_REG_REG then None
      else if \<not> (reg_r (op_reg a) = CX \<and> reg_w (op_reg a) = 1) then None
      else
        (let c = (if is_64_bit_reg (reg_r (op_reg b)) \<noteq> 0 \<or> reg_w (op_reg b) > 4
                  then emit (REX OR rex_W (reg_w (op_reg b)) OR rex_B (reg_r (op_reg b))) c
                  else c);
             c = emit (0xD2 OR opsize_w (reg_w (op_reg b))) c;
             c = emit (0xF8 OR reg (reg_r (op_reg b))) c
         in Some (c, st)))"

definition encode :: "instruction \<Rightarrow> elf_state \<Rightarrow> (code \<times> elf_state) option" where
  "encode instr st =
     (case i_opcode instr of
        INSTR_ADD \<Rightarrow> add (i_optype instr) (i_source instr) (i_dest instr) st
      | INSTR_NOT \<Rightarrow> encode_not (i_optype instr) (i_source instr) st
      | INSTR_MUL \<Rightarrow> mul (i_optype instr) (i_source instr) st
      | INSTR_XOR \<Rightarrow> encode_xor (i_optype instr) (i_source instr) (i_dest instr) st
      | INSTR_DIV \<Rightarrow> encode_div (i_optype instr) (i_source instr) st
      | INSTR_AND \<Rightarrow> encode_and (i_optype instr) (i_source instr) (i_dest instr) st
      | INSTR_OR \<Rightarrow> encode_or (i_optype instr) (i_source instr) (i_dest instr) st
      | INSTR_SHL \<Rightarrow> shl (i_optype instr) (i_source instr) (i_dest instr) st
      | INSTR_SHR \<Rightarrow> shr (i_optype instr) (i_source instr) (i_dest instr) st
      | INSTR_SAR \<Rightarrow> sar (i_optype instr) (i_source instr) (i_dest instr) st
      | INSTR_CALL \<Rightarrow> call (i_optype instr) (i_source instr) st
      | INSTR_CMP \<Rightarrow> cmp (i_optype instr) (i_source instr) (i_dest instr) st
      | INSTR_MOV \<Rightarrow> mov (i_optype instr) (i_source instr) (i_dest instr) st
      | INSTR_MOVSX \<Rightarrow> movsx (i_optype instr) (i_source instr) (i_dest instr) st
      | INSTR_MOVZX \<Rightarrow> movzx (i_optype instr) (i_source instr) (i_dest instr) st
      | INSTR_MOVAPS \<Rightarrow> movaps (i_optype instr) (i_source instr) (i_dest instr) st
      | INSTR_PUSH \<Rightarrow> push (i_optype instr) (i_source instr) st
      | INSTR_SUB \<Rightarrow> sub (i_optype instr) (i_source instr) (i_dest instr) st
      | INSTR_LEA \<Rightarrow> lea (i_optype instr) (i_source instr) (i_dest instr) st
      | INSTR_LEAVE \<Rightarrow> leave st
      | INSTR_REP_MOVSQ \<Rightarrow> if i_optype instr \<noteq> OPT_NONE then None else rep_movsq st
      | INSTR_RET \<Rightarrow> ret st
      | INSTR_JMP \<Rightarrow> jmp (i_optype instr) (i_source instr) st
      | INSTR_JA \<Rightarrow> jcc (i_optype instr) TEST_A (i_source instr) st
      | INSTR_JG \<Rightarrow> jcc (i_optype instr) TEST_G (i_source instr) st
      | INSTR_JZ \<Rightarrow> jcc (i_optype instr) TEST_Z (i_source instr) st
      | INSTR_JAE \<Rightarrow> jcc (i_optype instr) TEST_AE (i_source instr) st
      | INSTR_JGE \<Rightarrow> jcc (i_optype instr) TEST_GE (i_source instr) st
      | INSTR_SETZ \<Rightarrow> setcc (i_optype instr) TEST_Z (i_source instr) st
      | INSTR_SETA \<Rightarrow> setcc (i_optype instr) TEST_A (i_source instr) st
      | INSTR_SETG \<Rightarrow> setcc (i_optype instr) TEST_G (i_source instr) st
      | INSTR_SETAE \<Rightarrow> setcc (i_optype instr) TEST_AE (i_source instr) st
      | INSTR_SETGE \<Rightarrow> setcc (i_optype instr) TEST_GE (i_source instr) st
      | INSTR_TEST \<Rightarrow> test (i_optype instr) (i_source instr) (i_dest instr) st
      | INSTR_OTHER n \<Rightarrow> Some (nop, st))"

definition grows_by_one :: "'a list \<Rightarrow> 'a list \<Rightarrow> bool" where
  "grows_by_one xs ys = (length ys \<le> length xs + 1 \<and> take (length xs) ys = xs)"


text \<open>The bytes \<^verbatim>\<open>encode\<close> returns, next to the ELF state after the call.\<close>

definition encoded :: "instruction \<Rightarrow> elf_state \<Rightarrow> (8 word list \<times> elf_state) option" where
  "encoded instr st =
     (case encode instr st of None \<Rightarrow> None | Some (c, st') \<Rightarrow> Some (code_bytes c, st'))"

text \<open>Operands for the examples: the readings that the optype does not select are zero.\<close>

definition null_address :: address where
  "null_address = \<lparr>addr_sym = None, addr_base = 0, addr_offset = 0, addr_disp = 0\<rparr>"

definition reg_operand :: "int \<Rightarrow> int \<Rightarrow> operand" where
  "reg_operand r w = \<lparr>op_reg = \<lparr>reg_r = r, reg_w = w\<rparr>,
     op_mem = \<lparr>mem_addr = null_address, mem_w = 0\<rparr>,
     op_imm = \<lparr>imm_type = IMM_INT, imm_w = 0, imm_d = 0, imm_addr = null_address\<rparr>\<rparr>"

definition imm_operand :: "int \<Rightarrow> 64 word \<Rightarrow> operand" where
  "imm_operand w x = \<lparr>op_reg = \<lparr>reg_r = 0, reg_w = 0\<rparr>,
     op_mem = \<lparr>mem_addr = null_address, mem_w = 0\<rparr>,
     op_imm = \<lparr>imm_type = IMM_INT, imm_w = w, imm_d = x, imm_addr = null_address\<rparr>\<rparr>"

definition addr_operand :: "symbol \<Rightarrow> int \<Rightarrow> operand" where
  "addr_operand symb d = \<lparr>op_reg = \<lparr>reg_r = 0, reg_w = 0\<rparr>,
     op_mem = \<lparr>mem_addr = null_address, mem_w = 0\<rparr>,
     op_imm = \<lparr>imm_type = IMM_ADDR, imm_w = 8, imm_d = 0,
       imm_addr = \<lparr>addr_sym = Some symb, addr_base = 0, addr_offset = 0, addr_disp = d\<rparr>\<rparr>\<rparr>"

definition no_operand :: operand where
  "no_operand = reg_operand 0 0"

definition label_L :: symbol where
  "label_L = \<lparr>sym_name = ''.L1'', sym_type = basic_type__void, sym_symtype = SYM_LABEL,
     sym_linkage = LINK_INTERN, sym_depth = 0\<rparr>"

definition empty_text :: elf_state where
  "empty_text = \<lparr>text_offset = 0, label_offsets = [], relocs = [], pending = []\<rparr>"

section \<open>Initializers and the definition buffer (parser/declaration.c)\<close>

text \<open>
  Modelled from the spec: the token stream (lacc/token.h and the preprocessor), the IR
  records (lacc/ir.h), the expression parser (expression.c) and the evaluator (eval.c)
  are not among the sources. A token has a kind, a string value and an integer value;
  the stream ends with \<open>END\<close>, \<^verbatim>\<open>peek\<close> inspects the next token, \<^verbatim>\<open>next\<close> and
  \<^verbatim>\<open>consume\<close> advance, and \<^verbatim>\<open>consume\<close> with a mismatched kind is an error. A var
  is the spec's IR value carrier; its symbol is a reference into the symbol store, since
  the parser writes to the symbol through it. A block holds its statements and the var
  of the expression parsed last. A statement is the spec's three-address form; the only
  operation the initializer code emits is the store of \<^verbatim>\<open>eval_assign\<close>.
\<close>

datatype error = FatalError | AssertionFailed | Trap | OutOfFuel | Unmodelled

datatype token_kind = END | DOTS | IDENTIFIER | INTEGER_CONSTANT | STRING | PUNCT char

record token =
  tok :: token_kind
  strval :: string
  intval :: int

datatype var_kind = DIRECT | DEREF | ADDRESS | IMMEDIATE

record var =
  v_kind :: var_kind
  v_symbol :: "nat option"
  v_type :: typetree
  v_offset :: int
  v_lvalue :: bool
  v_imm :: int

datatype ir_op = IR_ASSIGN

record statement =
  s_target :: var
  s_op :: ir_op
  s_a :: var

record block =
  b_code :: "statement list"
  b_expr :: var

record defn =
  def_symbol :: "nat option"
  def_body :: "block option"
  def_params :: "nat list"
  def_locals :: "nat list"
  def_nodes :: "block list"

text \<open>
  The parser state: the tokens not yet consumed, the symbol store (a symbol pointer is
  an index into it), and the static variables of declaration.c: the definition buffer
  \<^verbatim>\<open>defs\<close> with its cursor (its length is the length of the list), \<^verbatim>\<open>fallback\<close>,
  and \<^verbatim>\<open>last_def_returned\<close> of \<^verbatim>\<open>parse\<close>.
\<close>

record parser_state =
  tokens :: "token list"
  symbols :: "symbol list"
  defs_def :: "defn list"
  defs_cur :: nat
  fallback :: defn
  last_def_returned :: defn

definition punct :: "char \<Rightarrow> token" where
  "punct c = \<lparr>tok = PUNCT c, strval = [c], intval = 0\<rparr>"

definition int_const :: "int \<Rightarrow> token" where
  "int_const n = \<lparr>tok = INTEGER_CONSTANT, strval = [], intval = n\<rparr>"

definition peek :: "parser_state \<Rightarrow> token" where
  "peek st = (case tokens st of [] \<Rightarrow> \<lparr>tok = END, strval = [], intval = 0\<rparr> | t # ts \<Rightarrow> t)"

definition consume :: "token_kind \<Rightarrow> parser_state \<Rightarrow> error + parser_state" where
  "consume k st =
     (if tok (peek st) = k then Inr (st\<lparr>tokens := tl (tokens st)\<rparr>) else Inl FatalError)"

definition var_direct :: "nat \<Rightarrow> symbol \<Rightarrow> var" where
  "var_direct ref symb =
     \<lparr>v_kind = DIRECT, v_symbol = Some ref, v_type = sym_type symb, v_offset = 0,
      v_lvalue = True, v_imm = 0\<rparr>"

definition eval_assign :: "block \<Rightarrow> var \<Rightarrow> var \<Rightarrow> block" where
  "eval_assign blk target expr =
     blk\<lparr>b_code := b_code blk @ [\<lparr>s_target = target, s_op = IR_ASSIGN, s_a = expr\<rparr>]\<rparr>"

text \<open>
  Modelled from the spec: \<^verbatim>\<open>assignment_expression\<close>, for the one form the examples
  use. An integer constant is consumed and becomes the immediate \<^verbatim>\<open>int\<close> value of
  the block's expression. Every other expression is outside the model
  (\<open>Unmodelled\<close>).
\<close>

definition assignment_expression ::
  "block \<Rightarrow> parser_state \<Rightarrow> error + (block \<times> parser_state)" where
  "assignment_expression blk st =
     (if tok (peek st) = INTEGER_CONSTANT then
        Inr (blk\<lparr>b_expr := \<lparr>v_kind = IMMEDIATE, v_symbol = None, v_type = basic_type__int,
                              v_offset = 0, v_lvalue = False, v_imm = intval (peek st)\<rparr>\<rparr>,
             st\<lparr>tokens := tl (tokens st)\<rparr>)
      else Inl Unmodelled)"

text \<open>
  Modelled from the spec: \<^verbatim>\<open>BASIC_TYPE_SIGNED(size)\<close> (lacc/typetree.h) is the signed
  integer type of the given width.
\<close>

definition BASIC_TYPE_SIGNED :: "int \<Rightarrow> typetree" where
  "BASIC_TYPE_SIGNED w =
     (if w = 1 then basic_type__char else if w = 2 then basic_type__short
      else if w = 4 then basic_type__int else basic_type__long)"

definition is_string :: "parser_state \<Rightarrow> var \<Rightarrow> bool" where
  "is_string st v =
     (v_kind v = IMMEDIATE \<and>
      (case v_symbol v of
         None \<Rightarrow> False
       | Some ref \<Rightarrow> ref < length (symbols st)
                     \<and> sym_symtype (symbols st ! ref) = SYM_STRING_VALUE))"

definition var_zero :: "int \<Rightarrow> var" where
  "var_zero sz =
     \<lparr>v_kind = IMMEDIATE, v_symbol = None, v_type = BASIC_TYPE_SIGNED sz, v_offset = 0,
      v_lvalue = False, v_imm = 0\<rparr>"

text \<open>
  \<^verbatim>\<open>zero_initialize\<close> appends its stores to the block. \<open>zero_members\<close> is the loop
  over the members of a struct or union, \<open>zero_elements\<close> the loop over the elements
  of an array, with index \<open>i\<close> and \<open>k\<close> iterations left. The errors are the failed
  assertions, the division by an element size of 0 and the \<^verbatim>\<open>exit\<close> of the default
  case.
\<close>

function zero_initialize :: "block \<Rightarrow> var \<Rightarrow> error + block"
  and zero_members :: "block \<Rightarrow> var \<Rightarrow> member list \<Rightarrow> error + block"
  and zero_elements :: "block \<Rightarrow> var \<Rightarrow> typetree \<Rightarrow> int \<Rightarrow> nat \<Rightarrow> error + block"
where
  "zero_initialize blk target =
     (if v_kind target \<noteq> DIRECT then Inl AssertionFailed
      else if ttype (v_type target) = T_STRUCT \<or> ttype (v_type target) = T_UNION then
        (case tnext (v_type target) of
           None \<Rightarrow> zero_members blk target (members (v_type target))
         | Some u \<Rightarrow> zero_members blk (target\<lparr>v_type := u\<rparr>) (members u))
      else if ttype (v_type target) = T_ARRAY then
        (if tsize (v_type target) = 0 then Inl AssertionFailed
         else case tnext (v_type target) of
                None \<Rightarrow> Inl Trap
              | Some e \<Rightarrow>
                  if \<not> (is_struct e \<or> tnext e = None) then Inl AssertionFailed
                  else if tsize e = 0 then Inl Trap
                  else zero_elements blk target e 0 (nat (c_div (tsize (v_type target)) (tsize e))))
      else if ttype (v_type target) = T_POINTER then
        (case type_init T_POINTER (Some basic_type__void) 0 of
           None \<Rightarrow> Inl AssertionFailed
         | Some p \<Rightarrow> Inr (eval_assign blk target ((var_zero 8)\<lparr>v_type := p\<rparr>)))
      else if ttype (v_type target) = T_UNSIGNED \<or> ttype (v_type target) = T_SIGNED then
        Inr (eval_assign blk target (var_zero (tsize (v_type target))))
      else Inl FatalError)"
| "zero_members blk var [] = Inr blk"
| "zero_members blk var (m # ms) =
     (case zero_initialize blk (var\<lparr>v_type := mtype m, v_offset := v_offset var + moffset m\<rparr>) of
        Inl e \<Rightarrow> Inl e
      | Inr blk' \<Rightarrow> zero_members blk' var ms)"
| "zero_elements blk var e i 0 = Inr blk"
| "zero_elements blk var e i (Suc k) =
     (case zero_initialize blk (var\<lparr>v_type := e, v_offset := v_offset var + i * tsize e\<rparr>) of
        Inl err \<Rightarrow> Inl err
      | Inr blk' \<Rightarrow> zero_elements blk' var e (i + 1) k)"
  by pat_completeness auto

termination zero_initialize
proof -
  have m: "size_list size (members t) < size t" for t
    by (cases t) simp
  have n: "tnext t = Some u \<Longrightarrow> size u < size t" for t u
    by (cases t) simp
  have nm: "tnext t = Some u \<Longrightarrow> size_list size (members u) < size t" for t u
    using m [of u] n [of t u] by simp
  have mt: "size (mtype f) < Suc (size f + k)" for f k
    by (cases f) simp
  show ?thesis
    by (relation "inv_image (less_than <*lex*> less_than)
     (\<lambda>x. case x of Inl (blk, target) \<Rightarrow> (size (v_type target), 0::nat)
               | Inr (Inl (blk, var, ms)) \<Rightarrow> (size_list size ms, 0)
               | Inr (Inr (blk, var, e, i, k)) \<Rightarrow> (size e, Suc k))")
      (auto simp: m n nm mt)
qed

text \<open>
  \<^verbatim>\<open>initializer\<close> and \<^verbatim>\<open>object_initializer\<close> call each other, and the loops of
  \<^verbatim>\<open>object_initializer\<close> run until the tokens say so. The model gives every call and
  every loop iteration one unit of fuel from its first argument; \<open>OutOfFuel\<close> is the
  result only when that runs out. \<open>struct_loop\<close> and \<open>array_loop\<close> are the first
  loops of the struct and array cases: they return the index \<open>i\<close> at which the loop
  stopped; \<open>after_element\<close> is the end of their bodies (a comma is consumed, and
  the loop goes on unless a closing brace follows). \<open>zero_rest\<close> is the loop \<^verbatim>\<open>while (++i < ...)\<close> of the array case, with
  \<open>k\<close> iterations left; the one of the struct case is \<open>zero_members\<close> on the members
  after \<open>i\<close>.
\<close>

fun zero_rest :: "block \<Rightarrow> var \<Rightarrow> typetree \<Rightarrow> int \<Rightarrow> int \<Rightarrow> nat \<Rightarrow> error + block" where
  "zero_rest blk target e filled i 0 = Inr blk"
| "zero_rest blk target e filled i (Suc k) =
     (case zero_initialize blk (target\<lparr>v_offset := filled + i * size_of e\<rparr>) of
        Inl err \<Rightarrow> Inl err
      | Inr blk' \<Rightarrow> zero_rest blk' target e filled (i + 1) k)"

definition set_symbol_size :: "nat \<Rightarrow> int \<Rightarrow> parser_state \<Rightarrow> parser_state" where
  "set_symbol_size ref sz st =
     st\<lparr>symbols := (symbols st)[ref := (symbols st ! ref)
          \<lparr>sym_type := set_size (sym_type (symbols st ! ref)) sz\<rparr>]\<rparr>"

text \<open>
  The parts of \<^verbatim>\<open>initializer\<close> and \<^verbatim>\<open>object_initializer\<close> that make no recursive
  call: the branch of \<^verbatim>\<open>initializer\<close> for an expression (\<open>expression_initializer\<close>),
  the zero fill of a union with padding (\<open>union_prefill\<close>), and what follows the
  first loop of the struct case (\<open>struct_finish\<close>) and of the array case
  (\<open>array_finish\<close>).
\<close>

definition expression_initializer ::
  "block \<Rightarrow> var \<Rightarrow> parser_state \<Rightarrow> error + (block \<times> parser_state)" where
  "expression_initializer blk target st =
     (case assignment_expression blk st of
        Inl e \<Rightarrow> Inl e
      | Inr (blk, st) \<Rightarrow>
          (case v_symbol target of
             None \<Rightarrow> Inl Trap
           | Some ref \<Rightarrow>
               if \<not> ref < length (symbols st) then Inl Trap
               else if sym_depth (symbols st ! ref) = 0 \<and> v_kind (b_expr blk) \<noteq> IMMEDIATE
               then Inl FatalError
               else if v_kind target = DIRECT \<and> tsize (v_type target) = 0 then
                 (if v_offset target \<noteq> 0 then Inl AssertionFailed
                  else if \<not> is_string st (b_expr blk) then Inl AssertionFailed
                  else if \<not> is_array (v_type (b_expr blk)) then Inl AssertionFailed
                  else
                    Inr (eval_assign blk (target\<lparr>v_type := v_type (b_expr blk)\<rparr>) (b_expr blk),
                         set_symbol_size ref (tsize (v_type (b_expr blk))) st))
               else Inr (eval_assign blk target (b_expr blk), st)))"

definition union_prefill :: "block \<Rightarrow> var \<Rightarrow> typetree \<Rightarrow> error + (block \<times> member)" where
  "union_prefill blk target type =
     (case get_member type 0 of
        None \<Rightarrow> Inl Trap
      | Some m0 \<Rightarrow>
          if size_of (mtype m0) < tsize type then
            (case (if c_mod (tsize type) 8 \<noteq> 0
                   then type_init T_ARRAY (Some basic_type__char) (tsize type)
                   else type_init T_ARRAY (Some basic_type__long) (c_div (tsize type) 8)) of
               None \<Rightarrow> Inl Trap
             | Some zt \<Rightarrow>
                 (case zero_initialize blk (target\<lparr>v_type := zt\<rparr>) of
                    Inl e \<Rightarrow> Inl e
                  | Inr blk \<Rightarrow> Inr (blk, m0)))
          else Inr (blk, m0))"

definition struct_finish ::
  "typetree \<Rightarrow> int \<Rightarrow> nat \<times> block \<times> var \<times> parser_state \<Rightarrow> error + (block \<times> parser_state)"
where
  "struct_finish type filled r =
     (case r of (i, blk, target, st) \<Rightarrow>
        (case zero_members blk (target\<lparr>v_offset := filled\<rparr>) (drop (Suc i) (members type)) of
           Inl e \<Rightarrow> Inl e
         | Inr blk \<Rightarrow> Inr (blk, st)))"

definition array_finish ::
  "typetree \<Rightarrow> typetree \<Rightarrow> int \<Rightarrow> int \<times> block \<times> var \<times> parser_state
     \<Rightarrow> error + (block \<times> parser_state)" where
  "array_finish type e filled r =
     (case r of (i, blk, target, st) \<Rightarrow>
        if tsize type = 0 then
          (case v_symbol target of
             None \<Rightarrow> Inl Trap
           | Some ref \<Rightarrow>
               if \<not> ref < length (symbols st) then Inl Trap
               else if tsize (sym_type (symbols st ! ref)) \<noteq> 0 then Inl AssertionFailed
               else if \<not> is_array (sym_type (symbols st ! ref)) then Inl AssertionFailed
               else Inr (blk, set_symbol_size ref ((i + 1) * size_of e) st))
        else
          (case zero_rest blk target e filled (i + 1)
                  (nat (c_div (tsize type) (size_of e) - (i + 1))) of
             Inl err \<Rightarrow> Inl err
           | Inr blk \<Rightarrow> Inr (blk, st)))"

definition close_brace :: "block \<times> parser_state \<Rightarrow> error + (block \<times> parser_state)" where
  "close_brace r =
     (case r of (blk, st) \<Rightarrow>
        (case consume (PUNCT CHR ''}'') st of Inl e \<Rightarrow> Inl e | Inr st \<Rightarrow> Inr (blk, st)))"

definition after_element :: "parser_state \<Rightarrow> error + (bool \<times> parser_state)" where
  "after_element st =
     (if tok (peek st) = PUNCT CHR '','' then
        (case consume (PUNCT CHR '','') st of
           Inl e \<Rightarrow> Inl e
         | Inr st \<Rightarrow> Inr (tok (peek st) \<noteq> PUNCT CHR ''}'', st))
      else Inr (False, st))"

function initializer :: "nat \<Rightarrow> block \<Rightarrow> var \<Rightarrow> parser_state \<Rightarrow> error + (block \<times> parser_state)"
  and object_initializer ::
    "nat \<Rightarrow> block \<Rightarrow> var \<Rightarrow> parser_state \<Rightarrow> error + (block \<times> parser_state)"
  and struct_loop ::
    "nat \<Rightarrow> typetree \<Rightarrow> int \<Rightarrow> nat \<Rightarrow> block \<Rightarrow> var \<Rightarrow> parser_state
       \<Rightarrow> error + (nat \<times> block \<times> var \<times> parser_state)"
  and array_loop ::
    "nat \<Rightarrow> typetree \<Rightarrow> typetree \<Rightarrow> int \<Rightarrow> int \<Rightarrow> block \<Rightarrow> var \<Rightarrow> parser_state
       \<Rightarrow> error + (int \<times> block \<times> var \<times> parser_state)"
where
  "initializer 0 blk target st = Inl OutOfFuel"
| "initializer (Suc fuel) blk target st =
     (if v_kind target \<noteq> DIRECT then Inl AssertionFailed
      else if tok (peek st) = PUNCT CHR ''{''
      then object_initializer fuel blk (target\<lparr>v_type := unwrapped (v_type target)\<rparr>) st
      else expression_initializer blk (target\<lparr>v_type := unwrapped (v_type target)\<rparr>) st)"
| "object_initializer 0 blk target st = Inl OutOfFuel"
| "object_initializer (Suc fuel) blk target st =
     (if is_tagged (v_type target) then Inl AssertionFailed
      else
        (case consume (PUNCT CHR ''{'') st of
           Inl e \<Rightarrow> Inl e
         | Inr st \<Rightarrow>
             (case
                (if ttype (v_type target) = T_UNION then
                   (case union_prefill blk (target\<lparr>v_lvalue := True\<rparr>) (v_type target) of
                      Inl e \<Rightarrow> Inl e
                    | Inr (blk, m0) \<Rightarrow>
                        (case initializer fuel blk
                                (target\<lparr>v_lvalue := True, v_type := mtype m0\<rparr>) st of
                           Inl e \<Rightarrow> Inl e
                         | Inr (blk, st) \<Rightarrow>
                             if tok (peek st) \<noteq> PUNCT CHR ''}'' then Inl FatalError
                             else Inr (blk, st)))
                 else if ttype (v_type target) = T_STRUCT then
                   (case struct_loop fuel (v_type target) (v_offset target) 0 blk
                           (target\<lparr>v_lvalue := True\<rparr>) st of
                      Inl e \<Rightarrow> Inl e
                    | Inr r \<Rightarrow> struct_finish (v_type target) (v_offset target) r)
                 else if ttype (v_type target) = T_ARRAY then
                   (case tnext (v_type target) of
                      None \<Rightarrow> Inl Trap
                    | Some e \<Rightarrow>
                        (case array_loop fuel (v_type target) e (v_offset target) 0 blk
                                (target\<lparr>v_lvalue := True, v_type := e\<rparr>) st of
                           Inl err \<Rightarrow> Inl err
                         | Inr r \<Rightarrow> array_finish (v_type target) e (v_offset target) r))
                 else Inl FatalError)
              of
                Inl e \<Rightarrow> Inl e
              | Inr r \<Rightarrow> close_brace r)))"
| "struct_loop 0 type filled i blk target st = Inl OutOfFuel"
| "struct_loop (Suc fuel) type filled i blk target st =
     (if int i < nmembers type then
        (case initializer fuel blk
                (target\<lparr>v_type := mtype (members type ! i),
                        v_offset := filled + moffset (members type ! i)\<rparr>) st of
           Inl e \<Rightarrow> Inl e
         | Inr (blk, st) \<Rightarrow>
             (case after_element st of
                Inl e \<Rightarrow> Inl e
              | Inr (continue, st) \<Rightarrow>
                  if continue
                  then struct_loop fuel type filled (Suc i) blk
                         (target\<lparr>v_type := mtype (members type ! i),
                                 v_offset := filled + moffset (members type ! i)\<rparr>) st
                  else Inr (i, blk,
                         target\<lparr>v_type := mtype (members type ! i),
                                v_offset := filled + moffset (members type ! i)\<rparr>, st)))
      else Inr (i, blk, target, st))"
| "array_loop 0 type e filled i blk target st = Inl OutOfFuel"
| "array_loop (Suc fuel) type e filled i blk target st =
     (if tsize type \<noteq> 0 \<and> size_of e = 0 then Inl Trap
      else if tsize type = 0 \<or> i < c_div (tsize type) (size_of e) then
        (case initializer fuel blk (target\<lparr>v_offset := filled + i * size_of e\<rparr>) st of
           Inl err \<Rightarrow> Inl err
         | Inr (blk, st) \<Rightarrow>
             (case after_element st of
                Inl err \<Rightarrow> Inl err
              | Inr (continue, st) \<Rightarrow>
                  if continue
                  then array_loop fuel type e filled (i + 1) blk
                         (target\<lparr>v_offset := filled + i * size_of e\<rparr>) st
                  else Inr (i, blk, target\<lparr>v_offset := filled + i * size_of e\<rparr>, st)))
      else Inr (i, blk, target, st))"
  by pat_completeness auto

termination initializer
  by (relation "measure (\<lambda>x. case x of
        Inl (Inl (fuel, blk, target, st)) \<Rightarrow> fuel
      | Inl (Inr (fuel, blk, target, st)) \<Rightarrow> fuel
      | Inr (Inl (fuel, type, filled, i, blk, target, st)) \<Rightarrow> fuel
      | Inr (Inr (fuel, type, e, filled, i, blk, target, st)) \<Rightarrow> fuel)") auto

text \<open>
  \<^verbatim>\<open>parse\<close>. \<^verbatim>\<open>clear_definition\<close> frees what a definition owns and zeroes it. The
  call \<^verbatim>\<open>declaration(NULL)\<close> in the loop of \<^verbatim>\<open>parse\<close> is the parameter
  \<open>decl\<close>: a step on the parser state that may fill the definition buffer, or
  \<open>None\<close> when it ends the process with an error. Its body needs the statement and
  expression parsers and the symbol table, which are not among the sources; what is
  proved about \<^verbatim>\<open>parse\<close> holds for each such step. The loop may run forever, so
  \<open>parse_loop\<close> and \<open>parse\<close> return \<open>None\<close> when \<^verbatim>\<open>parse\<close> does not return to its
  caller.
\<close>

definition zero_defn :: defn where
  "zero_defn = \<lparr>def_symbol = None, def_body = None, def_params = [], def_locals = [],
     def_nodes = []\<rparr>"

definition clear_definition :: "defn \<Rightarrow> defn" where
  "clear_definition d = zero_defn"

partial_function (option) parse_loop ::
  "(parser_state \<Rightarrow> parser_state option) \<Rightarrow> parser_state \<Rightarrow> parser_state option" where
  "parse_loop decl st =
     (if defs_def st = [] \<and> tok (peek st) \<noteq> END then
        Option.bind (decl st)
          (\<lambda>st'. parse_loop decl (st'\<lparr>fallback := clear_definition (fallback st')\<rparr>))
      else Some st)"

definition take_definition :: "parser_state \<Rightarrow> defn \<times> parser_state" where
  "take_definition st =
     (if defs_cur st < length (defs_def st) then
        (defs_def st ! defs_cur st,
         if defs_cur st + 1 = length (defs_def st) then st\<lparr>defs_def := [], defs_cur := 0\<rparr>
         else st\<lparr>defs_cur := defs_cur st + 1\<rparr>)
      else (zero_defn, st))"

definition parse ::
  "(parser_state \<Rightarrow> parser_state option) \<Rightarrow> parser_state \<Rightarrow> (defn \<times> parser_state) option"
where
  "parse decl st =
     (case parse_loop decl st of
        None \<Rightarrow> None
      | Some st \<Rightarrow>
          (case take_definition st of
             (def, st) \<Rightarrow>
               (let st = (if def_symbol (last_def_returned st) \<noteq> None
                          then st\<lparr>last_def_returned := clear_definition (last_def_returned st)\<rparr>
                          else st)
                in Some (def, st\<lparr>last_def_returned := def\<rparr>))))"

text \<open>
  The state in which \<^verbatim>\<open>declaration\<close> calls \<^verbatim>\<open>initializer\<close> for
  \<^verbatim>\<open>int a[] = {1,2,3};\<close> at file scope: the symbol \<open>a\<close>, already a definition, has
  the incomplete array type \<^verbatim>\<open>type_init(T_ARRAY, int, 0)\<close>, the tokens after the
  \<^verbatim>\<open>=\<close> are left, and the target is \<^verbatim>\<open>var_direct(a)\<close>. \<open>store_int ref off n\<close> is
  the store of the \<^verbatim>\<open>int\<close> constant \<open>n\<close> at offset \<open>off\<close> of the symbol \<open>ref\<close>.
\<close>

definition int_array :: "int \<Rightarrow> typetree" where
  "int_array sz = Typetree T_ARRAY sz 0 [] False (Some basic_type__int) None"

definition symbol_a :: "typetree \<Rightarrow> symbol" where
  "symbol_a t = \<lparr>sym_name = ''a'', sym_type = t, sym_symtype = SYM_DEFINITION,
     sym_linkage = LINK_EXTERN, sym_depth = 0\<rparr>"

definition no_var :: var where
  "no_var = \<lparr>v_kind = IMMEDIATE, v_symbol = None, v_type = basic_type__void, v_offset = 0,
     v_lvalue = False, v_imm = 0\<rparr>"

definition int_imm :: "int \<Rightarrow> var" where
  "int_imm n = \<lparr>v_kind = IMMEDIATE, v_symbol = None, v_type = basic_type__int, v_offset = 0,
     v_lvalue = False, v_imm = n\<rparr>"

definition store_int :: "nat \<Rightarrow> int \<Rightarrow> int \<Rightarrow> statement" where
  "store_int ref off n =
     \<lparr>s_target = \<lparr>v_kind = DIRECT, v_symbol = Some ref, v_type = basic_type__int,
                   v_offset = off, v_lvalue = True, v_imm = 0\<rparr>,
      s_op = IR_ASSIGN, s_a = int_imm n\<rparr>"

definition tokens_123 :: "token list" where
  "tokens_123 = [punct CHR ''{'', int_const 1, punct CHR '','', int_const 2, punct CHR '','',
     int_const 3, punct CHR ''}'', punct CHR '';'']"

definition state_a :: "token list \<Rightarrow> typetree \<Rightarrow> parser_state" where
  "state_a ts t = \<lparr>tokens = ts, symbols = [symbol_a t], defs_def = [], defs_cur = 0,
     fallback = zero_defn, last_def_returned = zero_defn\<rparr>"

text \<open>
  The definition buffer is well formed when every buffered definition has a symbol
  (\<^verbatim>\<open>push_back_definition\<close> stores the symbol it has just dereferenced) and the
  cursor is inside a buffer that is not empty (\<^verbatim>\<open>parse\<close> resets the buffer when the
  cursor reaches its end). \<open>preserves_buffer\<close> says that a declaration step keeps the
  buffer well formed.
\<close>

definition buffer_ok :: "parser_state \<Rightarrow> bool" where
  "buffer_ok st =
     (list_all (\<lambda>d. def_symbol d \<noteq> None) (defs_def st)
      \<and> (defs_def st = [] \<or> defs_cur st < length (defs_def st)))"

definition preserves_buffer :: "(parser_state \<Rightarrow> parser_state option) \<Rightarrow> bool" where
  "preserves_buffer decl = (\<forall>s s'. buffer_ok s \<longrightarrow> decl s = Some s' \<longrightarrow> buffer_ok s')"

definition at_end :: parser_state where
  "at_end = \<lparr>tokens = [], symbols = [], defs_def = [], defs_cur = 0, fallback = zero_defn,
     last_def_returned = zero_defn\<rparr>"

chapter \<open>Properties\<close>

section \<open>Properties: Struct layout\<close>

lemma c_div_nonneg: "0 \<le> a \<Longrightarrow> 0 < b \<Longrightarrow> c_div a b = a div b"
  by (cases "a = 0") (simp_all add: c_div_def)


















section \<open>Properties: Classification of types and calls\<close>

lemmas type_preds = is_struct_def is_union_def is_function_def is_array_def is_pointer_def
  is_void_def is_integer_def is_struct_or_union_def is_object_def is_tagged_def

lemmas basic_types = basic_type_def basic_type__void_def basic_type__char_def
  basic_type__short_def basic_type__int_def basic_type__long_def basic_type__float_def
  basic_type__double_def

declare flatten.simps [simp del]

lemma flatten_length:
  "flatten l t off = Some l' \<Longrightarrow> length l' = length l"
  "flatten_members l ms off = Some l' \<Longrightarrow> length l' = length l"
  "flatten_array l e off i k = Some l' \<Longrightarrow> length l' = length l"
proof (induction l t off and l ms off and l e off i k arbitrary: l' and l' and l'
    rule: flatten_flatten_members_flatten_array.induct)
  case (1 l t offset)
  then show ?case
    by (subst (asm) flatten.simps) (auto simp: Let_def split: if_splits option.splits)
next
  case (2 l offset)
  then show ?case by simp
next
  case (3 l m ms offset)
  then show ?case by (auto split: option.splits)
next
  case (4 l e offset i)
  then show ?case by simp
next
  case (5 l e offset i k)
  then show ?case by (auto split: option.splits)
qed

lemma classify_slot_count:
  assumes "scalar_size_ok t" "classify t = Some (c # cs)" "c \<noteq> PC_MEMORY"
  shows "int (length (c # cs)) = (size_of t + 7) div 8"
proof (cases "is_integer t \<or> is_pointer t")
  case True
  then have "size_of t = tsize t"
    by (auto simp: size_of_def type_preds split: option.splits)
  moreover have "tsize t = 1 \<or> tsize t = 2 \<or> tsize t = 4 \<or> tsize t = 8"
    using True assms(1) by (auto simp: scalar_size_ok_def split: if_splits)
  moreover have "c # cs = [PC_INTEGER]"
    using True assms(2) by (auto simp: classify_def split: if_splits)
  ultimately show ?thesis by auto
next
  case False
  with assms(2,3) obtain eb where
    eb: "flatten (replicate (nat (N_EIGHTBYTES t)) PC_NO_CLASS) t 0 = Some eb" "c # cs = eb"
    by (auto simp: classify_def Let_def split: if_splits option.splits bool.splits)
  have len: "length (c # cs) = nat (N_EIGHTBYTES t)"
    using flatten_length(1) [OF eb(1)] eb(2) by simp
  then have pos: "0 < N_EIGHTBYTES t" by (cases "0 < N_EIGHTBYTES t") auto
  have "0 \<le> size_of t + 7"
  proof (rule ccontr)
    assume "\<not> 0 \<le> size_of t + 7"
    then have "c_div (size_of t + 7) 8 \<le> 0"
      by (simp add: c_div_def mult_le_0_iff pos_imp_zdiv_nonneg_iff)
    with pos show False by (simp add: N_EIGHTBYTES_def)
  qed
  then have "N_EIGHTBYTES t = (size_of t + 7) div 8"
    by (simp add: N_EIGHTBYTES_def c_div_nonneg)
  with len pos show ?thesis by simp
qed

lemma struct_double2_built:
  "struct_of [(''x'', basic_type__double), (''y'', basic_type__double)] = Some struct_double2"
  by code_simp

lemma struct_long3_built:
  "struct_of [(''a'', basic_type__long), (''b'', basic_type__long), (''c'', basic_type__long)]
     = Some struct_long3"
  by code_simp

lemma struct_int3_built:
  "struct_of [(''a'', basic_type__int), (''b'', basic_type__int), (''c'', basic_type__int)]
     = Some struct_int3"
  by code_simp

lemma classify_struct_double2: "classify struct_double2 = Some [PC_SSE, PC_SSE]"
  by code_simp

lemma classify_struct_long3: "classify struct_long3 = Some [PC_MEMORY]"
  by code_simp

lemma classify_struct_int3: "classify struct_int3 = Some [PC_INTEGER, PC_INTEGER]"
  by code_simp

text \<open>
  C6. \<^verbatim>\<open>classify\<close> returns [SSE, SSE] for \<^verbatim>\<open>struct { double x; double y; }\<close>,
  [Memory] for \<^verbatim>\<open>struct { long a; long b; long c; }\<close> and [Integer, Integer] for
  \<^verbatim>\<open>struct { int a; int b; int c; }\<close>, each built by \<^verbatim>\<open>type_add_member\<close>; and
  whenever the first class returned is not Memory, the number of classes is
  \<open>ceil(size_of(T) / 8)\<close>, for every type whose integer and pointer nodes have the
  sizes \<^verbatim>\<open>type_init\<close> gives them.
\<close>

theorem classify_examples:
  "struct_of [(''x'', basic_type__double), (''y'', basic_type__double)] = Some struct_double2
   \<and> classify struct_double2 = Some [PC_SSE, PC_SSE]
   \<and> struct_of [(''a'', basic_type__long), (''b'', basic_type__long), (''c'', basic_type__long)]
       = Some struct_long3
   \<and> classify struct_long3 = Some [PC_MEMORY]
   \<and> struct_of [(''a'', basic_type__int), (''b'', basic_type__int), (''c'', basic_type__int)]
       = Some struct_int3
   \<and> classify struct_int3 = Some [PC_INTEGER, PC_INTEGER]
   \<and> (\<forall>t c cs. scalar_size_ok t \<longrightarrow> classify t = Some (c # cs) \<longrightarrow> c \<noteq> PC_MEMORY \<longrightarrow>
          int (length (c # cs)) = (size_of t + 7) div 8)"
  using classify_slot_count
  by (simp add: struct_double2_built struct_long3_built struct_int3_built
      classify_struct_double2 classify_struct_long3 classify_struct_int3)

theorem classify_examples_witness:
  "scalar_size_ok struct_int3 \<and> classify struct_int3 = Some (PC_INTEGER # [PC_INTEGER])
   \<and> PC_INTEGER \<noteq> PC_MEMORY
   \<and> int (length (PC_INTEGER # [PC_INTEGER])) = (size_of struct_int3 + 7) div 8"
proof -
  have h: "scalar_size_ok struct_int3"
    by (simp add: scalar_size_ok_def struct_int3_def type_preds)
  have "\<forall>t c cs. scalar_size_ok t \<longrightarrow> classify t = Some (c # cs) \<longrightarrow> c \<noteq> PC_MEMORY \<longrightarrow>
          int (length (c # cs)) = (size_of t + 7) div 8"
    using classify_examples by blast
  then have "int (length (PC_INTEGER # [PC_INTEGER])) = (size_of struct_int3 + 7) div 8"
    using h classify_struct_int3 by blast
  then show ?thesis using h classify_struct_int3 by simp
qed





text \<open>
  C2 at the failing input: a variable of type \<^verbatim>\<open>char [4]\<close> is an array of 4 bytes with
  type alignment 1, and \<^verbatim>\<open>sym_alignment\<close> returns 16 for it.
\<close>

theorem sym_alignment_small_array:
  "type_init T_ARRAY (Some basic_type__char) 4 = Some char4
   \<and> size_of char4 = 4
   \<and> type_alignment char4 = Some 1
   \<and> sym_alignment \<lparr>sym_name = ''a'', sym_type = char4, sym_symtype = SYM_DEFINITION,
        sym_linkage = LINK_NONE, sym_depth = 1\<rparr> = Some 16"
  by (simp add: type_init_def int32_def char4_def basic_types size_of_def sym_alignment_def
      type_preds)

section \<open>Properties: Instruction encoder (backend/x86_64/instructions.c)\<close>

lemma len_emit [simp]: "len (emit x c) = len c + 1"
  and len_put [simp]: "len (put i x c) = len c"
  and len_or_at [simp]: "len (or_at i x c) = len c"
  and len_code_init [simp]: "len (code_init bs n) = n"
  and len_nop [simp]: "len nop = 1"
  by (simp_all add: emit_def put_def or_at_def code_init_def nop_def)

lemma len_emit_bytes [simp]: "len (emit_bytes bs c) = len c + length bs"
  by (induction bs arbitrary: c) simp_all

lemma length_store [simp]: "i < length xs \<Longrightarrow> length (store i b xs) = length xs"
  by (simp add: store_def)

lemma size_emit [simp]: "len c < length (val c) \<Longrightarrow> length (val (emit x c)) = length (val c)"
  and size_put [simp]: "i < length (val c) \<Longrightarrow> length (val (put i x c)) = length (val c)"
  and size_or_at [simp]: "i < length (val c) \<Longrightarrow> length (val (or_at i x c)) = length (val c)"
  and size_code_init [simp]: "length bs \<le> 16 \<Longrightarrow> length (val (code_init bs n)) = 16"
  and size_nop [simp]: "length (val nop) = 16"
  by (simp_all add: emit_def put_def or_at_def code_init_def nop_def)

lemma size_emit_bytes [simp]:
  "len c + length bs \<le> length (val c) \<Longrightarrow> length (val (emit_bytes bs c)) = length (val c)"
  by (induction bs arbitrary: c) simp_all

lemma length_le_bytes [simp]: "length (le_bytes n x) = n"
  by (simp add: le_bytes_def)

lemma grows_by_one_refl [simp]: "grows_by_one xs xs"
  and grows_by_one_snoc [simp]: "grows_by_one xs (xs @ [x])"
  by (simp_all add: grows_by_one_def)



























lemma code_bytes_code_init_0 [simp]: "code_bytes (code_init bs 0) = []"
  by (simp add: code_bytes_def code_init_def)

lemma code_bytes_emit:
  "len c < length (val c) \<Longrightarrow> code_bytes (emit x c) = code_bytes c @ [byte x]"
  by (simp add: code_bytes_def emit_def store_def take_Suc_conv_app_nth)

lemma code_bytes_emit_bytes:
  "len c + length bs \<le> length (val c) \<Longrightarrow> code_bytes (emit_bytes bs c) = code_bytes c @ bs"
proof (induction bs arbitrary: c)
  case Nil
  then show ?case by simp
next
  case (Cons b bs)
  let ?c = "c\<lparr>val := store (len c) b (val c), len := len c + 1\<rparr>"
  have "code_bytes ?c = code_bytes c @ [b]"
    using Cons.prems by (simp add: code_bytes_def store_def take_Suc_conv_app_nth)
  moreover have "code_bytes (emit_bytes bs ?c) = code_bytes ?c @ bs"
    using Cons.prems by (intro Cons.IH) simp
  ultimately show ?case by simp
qed

text \<open>
  C8. \<^verbatim>\<open>MOV 0x01020304, EAX\<close> encodes to B8 04 03 02 01: five bytes, no REX prefix,
  and the ELF state is unchanged (no relocation). \<^verbatim>\<open>MOV 0x01020304, RAX\<close> encodes
  to 48 C7 C0 04 03 02 01: seven bytes, REX.W and the C7 /0 form.
\<close>

theorem mov_imm32_encodings:
  "encoded \<lparr>i_opcode = INSTR_MOV, i_optype = OPT_IMM_REG,
      i_source = imm_operand 4 0x01020304, i_dest = reg_operand AX 4\<rparr> st
     = Some ([0xB8, 0x04, 0x03, 0x02, 0x01], st)
   \<and> length [0xB8, 0x04, 0x03, 0x02, 0x01 :: 8 word] = 5
   \<and> encoded \<lparr>i_opcode = INSTR_MOV, i_optype = OPT_IMM_REG,
        i_source = imm_operand 4 0x01020304, i_dest = reg_operand AX 8\<rparr> st
       = Some ([0x48, 0xC7, 0xC0, 0x04, 0x03, 0x02, 0x01], st)
   \<and> length [0x48, 0xC7, 0xC0, 0x04, 0x03, 0x02, 0x01 :: 8 word] = 7"
  by code_simp

text \<open>
  C4. For a CL source of width 1 and any destination register, \<^verbatim>\<open>shr\<close> and
  \<^verbatim>\<open>sar\<close> return the same code: an optional REX prefix, the opcode
  \<open>0xD2 | w\<close> and the ModR/M byte \<open>0xF8 | reg\<close> (extension /7). \<^verbatim>\<open>encode\<close>
  gives the same result for the opcodes SHR and SAR.
\<close>

theorem shr_sar_identical:
  assumes "reg_r (op_reg a) = CX" and "reg_w (op_reg a) = 1"
  shows "shr OPT_REG_REG a b st = sar OPT_REG_REG a b st
    \<and> (\<exists>c. sar OPT_REG_REG a b st = Some (c, st)
          \<and> code_bytes c =
              (if is_64_bit_reg (reg_r (op_reg b)) \<noteq> 0 \<or> reg_w (op_reg b) > 4
               then [byte (REX OR rex_W (reg_w (op_reg b)) OR rex_B (reg_r (op_reg b)))]
               else [])
              @ [byte (0xD2 OR opsize_w (reg_w (op_reg b))),
                 byte (0xF8 OR reg (reg_r (op_reg b)))])
    \<and> encode \<lparr>i_opcode = INSTR_SHR, i_optype = OPT_REG_REG, i_source = a, i_dest = b\<rparr> st
        = encode \<lparr>i_opcode = INSTR_SAR, i_optype = OPT_REG_REG, i_source = a, i_dest = b\<rparr> st"
  using assms by (simp add: shr_def sar_def encode_def Let_def code_bytes_emit)

theorem shr_sar_identical_witness:
  "reg_r (op_reg (reg_operand CX 1)) = CX \<and> reg_w (op_reg (reg_operand CX 1)) = 1
   \<and> shr OPT_REG_REG (reg_operand CX 1) (reg_operand AX 4) empty_text
       = sar OPT_REG_REG (reg_operand CX 1) (reg_operand AX 4) empty_text
   \<and> encoded \<lparr>i_opcode = INSTR_SHR, i_optype = OPT_REG_REG, i_source = reg_operand CX 1,
        i_dest = reg_operand AX 4\<rparr> empty_text = Some ([0xD3, 0xF8], empty_text)"
proof -
  have h: "reg_r (op_reg (reg_operand CX 1)) = CX" "reg_w (op_reg (reg_operand CX 1)) = 1"
    by (simp_all add: reg_operand_def)
  have e: "encoded \<lparr>i_opcode = INSTR_SHR, i_optype = OPT_REG_REG, i_source = reg_operand CX 1,
        i_dest = reg_operand AX 4\<rparr> empty_text = Some ([0xD3, 0xF8], empty_text)"
    by code_simp
  from shr_sar_identical [OF h, of "reg_operand AX 4" empty_text] h e
  show ?thesis by simp
qed

lemma le_bytes_minus_4: "le_bytes 4 (word_of_int (- 4)) = [0xFC, 0xFF, 0xFF, 0xFF]"
  by code_simp

lemma jmp_unresolved:
  assumes "map_of (label_offsets st) (sym_name L) = None"
    and "addr_sym (imm_addr (op_imm a)) = Some L"
  shows "jmp OPT_IMM a st =
     Some (emit_bytes (le_bytes 4 (word_of_int (addr_disp (imm_addr (op_imm a)) - 4)))
             (code_init [0xE9] 1),
           st\<lparr>pending := pending st @ [(L, text_offset st + 1)]\<rparr>)"
  using assms by (simp add: jmp_def Let_def elf_text_displacement_def)

lemma code_bytes_jmp_init: "code_bytes (code_init [0xE9] (Suc 0)) = [0xE9]"
  by code_simp

text \<open>
  C3, as amended. A JMP to a label \<open>L\<close> that has no text offset yet encodes to E9
  followed by the four bytes of the address displacement minus 4, lowest first: with a
  displacement of 0 the bytes are E9 FC FF FF FF. \<^verbatim>\<open>jmp\<close> registers no relocation;
  its call of \<^verbatim>\<open>elf_text_displacement\<close> returns 0 and leaves one fixup pending, for
  the label at the current text offset plus 1.
\<close>

theorem jmp_forward_label:
  assumes "map_of (label_offsets st) (sym_name L) = None"
  shows "encoded \<lparr>i_opcode = INSTR_JMP, i_optype = OPT_IMM, i_source = addr_operand L d,
            i_dest = b\<rparr> st
       = Some (0xE9 # le_bytes 4 (word_of_int (d - 4)),
               st\<lparr>pending := pending st @ [(L, text_offset st + 1)]\<rparr>)
    \<and> encoded \<lparr>i_opcode = INSTR_JMP, i_optype = OPT_IMM, i_source = addr_operand L 0,
            i_dest = b\<rparr> st
       = Some ([0xE9, 0xFC, 0xFF, 0xFF, 0xFF],
               st\<lparr>pending := pending st @ [(L, text_offset st + 1)]\<rparr>)"
proof -
  let ?st' = "st\<lparr>pending := pending st @ [(L, text_offset st + 1)]\<rparr>"
  have j: "jmp OPT_IMM (addr_operand L x) st =
     Some (emit_bytes (le_bytes 4 (word_of_int (x - 4))) (code_init [0xE9] 1), ?st')" for x
    using jmp_unresolved [OF assms, of "addr_operand L x"] by (simp add: addr_operand_def)
  have e: "encoded \<lparr>i_opcode = INSTR_JMP, i_optype = OPT_IMM, i_source = s, i_dest = b\<rparr> st
      = (case jmp OPT_IMM s st of None \<Rightarrow> None | Some (c, st') \<Rightarrow> Some (code_bytes c, st'))"
    for s
    by (simp add: encoded_def encode_def)
  have c: "code_bytes (emit_bytes (le_bytes 4 y) (code_init [0xE9] 1)) = 0xE9 # le_bytes 4 y"
    for y
    by (simp add: code_bytes_emit_bytes code_bytes_jmp_init)
  have 1: "encoded \<lparr>i_opcode = INSTR_JMP, i_optype = OPT_IMM, i_source = addr_operand L x,
            i_dest = b\<rparr> st = Some (0xE9 # le_bytes 4 (word_of_int (x - 4)), ?st')" for x
    by (simp only: e j c option.case prod.case)
  have "le_bytes 4 (word_of_int (0 - 4)) = [0xFC, 0xFF, 0xFF, 0xFF]"
    using le_bytes_minus_4 by simp
  with 1 [of 0] have 2: "encoded \<lparr>i_opcode = INSTR_JMP, i_optype = OPT_IMM,
      i_source = addr_operand L 0, i_dest = b\<rparr> st = Some ([0xE9, 0xFC, 0xFF, 0xFF, 0xFF], ?st')"
    by (simp only:)
  from 1 [of d] 2 show ?thesis by (rule conjI)
qed

theorem jmp_forward_label_witness:
  "map_of (label_offsets empty_text) (sym_name label_L) = None
   \<and> encoded \<lparr>i_opcode = INSTR_JMP, i_optype = OPT_IMM, i_source = addr_operand label_L 0,
        i_dest = no_operand\<rparr> empty_text
       = Some ([0xE9, 0xFC, 0xFF, 0xFF, 0xFF],
               empty_text\<lparr>pending := pending empty_text @ [(label_L, text_offset empty_text + 1)]\<rparr>)"
proof -
  have h: "map_of (label_offsets empty_text) (sym_name label_L) = None"
    by (simp add: empty_text_def)
  have "encoded \<lparr>i_opcode = INSTR_JMP, i_optype = OPT_IMM, i_source = addr_operand label_L 0,
        i_dest = no_operand\<rparr> empty_text
       = Some ([0xE9, 0xFC, 0xFF, 0xFF, 0xFF],
               empty_text\<lparr>pending := pending empty_text @ [(label_L, text_offset empty_text + 1)]\<rparr>)"
    using jmp_forward_label [OF h, of 0 no_operand] by (rule conjunct2)
  with h show ?thesis by (rule conjI)
qed

lemma jmp_label_L_bytes:
  "encoded \<lparr>i_opcode = INSTR_JMP, i_optype = OPT_IMM, i_source = addr_operand label_L 0,
      i_dest = no_operand\<rparr> empty_text
     = Some ([0xE9, 0xFC, 0xFF, 0xFF, 0xFF],
         \<lparr>text_offset = 0, label_offsets = [], relocs = [], pending = [(label_L, 1)]\<rparr>)"
  by code_simp

text \<open>
  C3 as stated fails: the bytes after E9 are not zero, and no relocation is registered.
\<close>

theorem jmp_forward_label_counterexample:
  "encoded \<lparr>i_opcode = INSTR_JMP, i_optype = OPT_IMM, i_source = addr_operand label_L 0,
      i_dest = no_operand\<rparr> empty_text
     \<noteq> Some ([0xE9, 0x00, 0x00, 0x00, 0x00],
          empty_text\<lparr>relocs := [(Some label_L, R_X86_64_PC32, text_offset empty_text + 1, - 4)]\<rparr>)"
  by (simp add: jmp_label_L_bytes)




section \<open>Properties: Initializers and the definition buffer (parser/declaration.c)\<close>

text \<open>
  C7. With six units of fuel or more, the initializer of \<^verbatim>\<open>int a[] = {1,2,3};\<close>
  returns: the block holds exactly three stores, of 1, 2 and 3 at the offsets 0, 4 and
  8 of \<open>a\<close>; the type of the symbol \<open>a\<close> has been completed to size 12, which is
  \<^verbatim>\<open>int [3]\<close>; the token left is the semicolon.
\<close>

lemma init_123:
  "initializer (Suc (Suc (Suc (Suc (Suc (Suc k))))))
     \<lparr>b_code = [], b_expr = no_var\<rparr> (var_direct 0 (symbol_a (int_array 0)))
     (state_a tokens_123 (int_array 0))
   = Inr (\<lparr>b_code = [store_int 0 0 1, store_int 0 4 2, store_int 0 8 3], b_expr = int_imm 3\<rparr>,
          state_a [punct CHR '';''] (int_array 12))"
  by code_simp

theorem array_initializer_completion:
  "type_init T_ARRAY (Some basic_type__int) 0 = Some (int_array 0)
   \<and> type_init T_ARRAY (Some basic_type__int) 3 = Some (int_array 12)
   \<and> initializer (6 + k) \<lparr>b_code = [], b_expr = no_var\<rparr>
        (var_direct 0 (symbol_a (int_array 0))) (state_a tokens_123 (int_array 0))
      = Inr (\<lparr>b_code = [store_int 0 0 1, store_int 0 4 2, store_int 0 8 3],
               b_expr = int_imm 3\<rparr>,
             state_a [punct CHR '';''] (int_array 12))"
proof -
  have "6 + k = Suc (Suc (Suc (Suc (Suc (Suc k)))))" by simp
  moreover have "type_init T_ARRAY (Some basic_type__int) 0 = Some (int_array 0)"
    "type_init T_ARRAY (Some basic_type__int) 3 = Some (int_array 12)"
    by (simp_all add: type_init_def int32_def int_array_def size_of_def basic_types type_preds)
  ultimately show ?thesis using init_123 [of k] by (simp only:)
qed

lemma parse_loop_exit_aux:
  assumes "parse_loop decl st = Some st'"
  shows "preserves_buffer decl \<longrightarrow> buffer_ok st \<longrightarrow>
           buffer_ok st' \<and> (defs_def st' \<noteq> [] \<or> tok (peek st') = END)"
proof (rule parse_loop.raw_induct
    [where P = "\<lambda>decl st st'. preserves_buffer decl \<longrightarrow> buffer_ok st \<longrightarrow>
                  buffer_ok st' \<and> (defs_def st' \<noteq> [] \<or> tok (peek st') = END)"])
  show "parse_loop decl st = Some st'" by fact
next
  fix loop decl st st'
  assume IH: "\<And>d s y. loop d s = Some y \<Longrightarrow> preserves_buffer d \<longrightarrow> buffer_ok s \<longrightarrow>
                  buffer_ok y \<and> (defs_def y \<noteq> [] \<or> tok (peek y) = END)"
    and eq: "(if defs_def st = [] \<and> tok (peek st) \<noteq> END
              then Option.bind (decl st)
                     (\<lambda>st'. loop decl (st'\<lparr>fallback := clear_definition (fallback st')\<rparr>))
              else Some st) = Some st'"
  show "preserves_buffer decl \<longrightarrow> buffer_ok st \<longrightarrow>
          buffer_ok st' \<and> (defs_def st' \<noteq> [] \<or> tok (peek st') = END)"
  proof (intro impI)
    assume pres: "preserves_buffer decl" and ok: "buffer_ok st"
    show "buffer_ok st' \<and> (defs_def st' \<noteq> [] \<or> tok (peek st') = END)"
    proof (cases "defs_def st = [] \<and> tok (peek st) \<noteq> END")
      case True
      with eq obtain s1 where s1: "decl st = Some s1"
        "loop decl (s1\<lparr>fallback := clear_definition (fallback s1)\<rparr>) = Some st'"
        by (auto simp: bind_eq_Some_conv)
      have "buffer_ok s1" using pres ok s1(1) by (auto simp: preserves_buffer_def)
      then have "buffer_ok (s1\<lparr>fallback := clear_definition (fallback s1)\<rparr>)"
        by (simp add: buffer_ok_def)
      with IH [OF s1(2)] pres show ?thesis by simp
    next
      case False
      with eq have "st' = st" by auto
      with False ok show ?thesis by auto
    qed
  qed
qed

lemma parse_loop_exit:
  "parse_loop decl st = Some st' \<Longrightarrow> preserves_buffer decl \<Longrightarrow> buffer_ok st \<Longrightarrow>
   buffer_ok st' \<and> (defs_def st' \<noteq> [] \<or> tok (peek st') = END)"
  using parse_loop_exit_aux by blast

lemma parse_loop_at_end:
  "tok (peek st) = END \<or> defs_def st \<noteq> [] \<Longrightarrow> parse_loop decl st = Some st"
  by (subst parse_loop.simps) auto

text \<open>
  C10. When the next token is END and the definition buffer is empty, \<^verbatim>\<open>parse\<close>
  returns the all-zero definition, whose symbol is null, and changes nothing else.
  Conversely, when the buffer is well formed and the declaration step keeps it so, a
  definition with a null symbol is returned only when the next token is END and the
  buffer is empty: the null symbol signals the end of the input and nothing else.
\<close>

theorem parse_end_of_input:
  "(tok (peek st) = END \<and> defs_def st = [] \<longrightarrow>
      parse decl st = Some (zero_defn, st\<lparr>last_def_returned := zero_defn\<rparr>)
      \<and> def_symbol zero_defn = None)
   \<and> (preserves_buffer decl \<and> buffer_ok st \<and> parse decl st = Some (d, st')
        \<and> def_symbol d = None \<longrightarrow>
      tok (peek st') = END \<and> defs_def st' = [])"
proof (intro conjI impI)
  assume a: "tok (peek st) = END \<and> defs_def st = []"
  then have "parse_loop decl st = Some st" by (simp add: parse_loop_at_end)
  moreover have "take_definition st = (zero_defn, st)"
    using a by (simp add: take_definition_def)
  ultimately show "parse decl st = Some (zero_defn, st\<lparr>last_def_returned := zero_defn\<rparr>)"
    by (simp add: parse_def clear_definition_def)
  show "def_symbol zero_defn = None" by (simp add: zero_defn_def)
next
  assume b: "preserves_buffer decl \<and> buffer_ok st \<and> parse decl st = Some (d, st')
        \<and> def_symbol d = None"
  then obtain s1 where s1: "parse_loop decl st = Some s1"
    by (auto simp: parse_def split: option.splits)
  from parse_loop_exit [OF s1] b
  have ok: "buffer_ok s1" and ex: "defs_def s1 \<noteq> [] \<or> tok (peek s1) = END" by auto
  obtain d1 s2 where t: "take_definition s1 = (d1, s2)" by (cases "take_definition s1")
  from b s1 t have d: "d = d1" and st': "tokens st' = tokens s2" "defs_def st' = defs_def s2"
    by (auto simp: parse_def Let_def split: if_splits)
  have empty: "defs_def s1 = []"
  proof (rule ccontr)
    assume ne: "defs_def s1 \<noteq> []"
    with ok have lt: "defs_cur s1 < length (defs_def s1)" by (simp add: buffer_ok_def)
    with t have "d1 = defs_def s1 ! defs_cur s1" by (simp add: take_definition_def)
    moreover from ok lt have "def_symbol (defs_def s1 ! defs_cur s1) \<noteq> None"
      by (simp add: buffer_ok_def list_all_length)
    ultimately show False using b d by simp
  qed
  with t have "s2 = s1" by (simp add: take_definition_def)
  with empty ex st' show "tok (peek st') = END" "defs_def st' = []"
    by (simp_all add: peek_def)
qed

theorem parse_end_of_input_witness:
  "tok (peek at_end) = END \<and> defs_def at_end = []
   \<and> preserves_buffer (\<lambda>s. None) \<and> buffer_ok at_end
   \<and> parse (\<lambda>s. None) at_end = Some (zero_defn, at_end)
   \<and> def_symbol zero_defn = None"
proof -
  have h: "tok (peek at_end) = END \<and> defs_def at_end = []"
    by (simp add: at_end_def peek_def)
  have p: "preserves_buffer (\<lambda>s. None)" "buffer_ok at_end"
    by (simp_all add: preserves_buffer_def buffer_ok_def at_end_def)
  have e: "at_end\<lparr>last_def_returned := zero_defn\<rparr> = at_end" by (simp add: at_end_def)
  from parse_end_of_input [of at_end "\<lambda>s. None" zero_defn at_end] h p e
  show ?thesis by simp
qed

end
